theory Spec2Isabelle
  imports Complex_Main "HOL-Library.Multiset"
begin

section \<open>Toxic comment classification notebook: data model\<close>

text \<open>
  The notebook \<^verbatim>\<open>Preprocessing/toxic_comment_preprocessing.ipynb\<close> is Python. Its own
  functions are \<^verbatim>\<open>clean_text\<close>, the class \<^verbatim>\<open>ToxicCommentsDataset\<close>, the class
  \<^verbatim>\<open>BertForToxicComment\<close>, \<^verbatim>\<open>train_epoch\<close> and \<^verbatim>\<open>eval_model\<close>; everything else is a
  call into pandas, scikit-learn, PyTorch or the transformers library.

  Exceptions are values: a function that can raise returns \<open>pyerror + 'a\<close>, with \<open>Inl\<close>
  the exception. Python floats are idealised as \<open>real\<close>, Python ints are \<open>int\<close> or
  \<open>nat\<close>, and a Python \<^verbatim>\<open>str\<close> is the list of its Unicode code points.
\<close>

datatype pyerror = ZeroDivisionError | ValueError | IndexError | KeyError | TypeError

type_synonym pystr = "nat list"

definition py :: "string \<Rightarrow> pystr" where
  \<comment> \<open>an ASCII literal as a Python string\<close>
  "py s = map of_char s"

text \<open>The Python values that the cells of the data frame hold: a string, an integer, the
  float NaN of a missing cell, or \<^verbatim>\<open>None\<close>.\<close>

datatype pyval = PyStr pystr | PyInt int | PyNaN | PyNone

subsection \<open>Cell 4: \<^verbatim>\<open>clean_text\<close>\<close>

definition is_space :: "nat \<Rightarrow> bool" where
  \<comment> \<open>the characters that \<^verbatim>\<open>\s\<close> matches in a \<^verbatim>\<open>str\<close> pattern (Unicode whitespace)\<close>
  "is_space c \<longleftrightarrow> (9 \<le> c \<and> c \<le> 13) \<or> (28 \<le> c \<and> c \<le> 32) \<or> c = 133 \<or> c = 160
     \<or> c = 5760 \<or> (8192 \<le> c \<and> c \<le> 8202) \<or> c = 8232 \<or> c = 8233 \<or> c = 8239
     \<or> c = 8287 \<or> c = 12288"

definition url_at :: "pystr \<Rightarrow> bool" where
  \<comment> \<open>the pattern \<^verbatim>\<open>http\S+\<close> matches at the start of the text: the four letters
      \<^verbatim>\<open>http\<close> and at least one character that is not whitespace\<close>
  "url_at s \<longleftrightarrow> take 4 s = [104, 116, 116, 112]
     \<and> (case drop 4 s of [] \<Rightarrow> False | c # _ \<Rightarrow> \<not> is_space c)"

text \<open>\<^verbatim>\<open>re.sub(r'http\S+', '', text)\<close>: scanning from the left, the leftmost match is
  deleted with all the characters up to the next whitespace (\<^verbatim>\<open>\S+\<close> is greedy), and the
  scan goes on behind it.\<close>

function re_sub_url :: "pystr \<Rightarrow> pystr" where
  "re_sub_url [] = []"
| "re_sub_url (c # cs) =
     (if url_at (c # cs)
      then re_sub_url (dropWhile (\<lambda>x. \<not> is_space x) (drop 4 (c # cs)))
      else c # re_sub_url cs)"
  by pat_completeness auto
termination
proof (relation "measure length")
  show "wf (measure length)" by simp
next
  fix c :: nat and cs :: pystr
  have "length (dropWhile (\<lambda>x. \<not> is_space x) (drop 4 (c # cs))) \<le> length (drop 4 (c # cs))"
    by (rule length_dropWhile_le)
  then show "(dropWhile (\<lambda>x. \<not> is_space x) (drop 4 (c # cs)), c # cs) \<in> measure length"
    by simp
next
  fix c :: nat and cs :: pystr
  show "(cs, c # cs) \<in> measure length" by simp
qed

definition re_sub_newline :: "pystr \<Rightarrow> pystr" where
  \<comment> \<open>\<^verbatim>\<open>re.sub(r'\n', ' ', text)\<close>\<close>
  "re_sub_newline s = map (\<lambda>c. if c = 10 then 32 else c) s"

definition alnum_or_space :: "nat \<Rightarrow> bool" where
  \<comment> \<open>the character class \<^verbatim>\<open>[A-Za-z0-9 ]\<close>\<close>
  "alnum_or_space c \<longleftrightarrow> (65 \<le> c \<and> c \<le> 90) \<or> (97 \<le> c \<and> c \<le> 122) \<or> (48 \<le> c \<and> c \<le> 57) \<or> c = 32"

definition re_sub_special :: "pystr \<Rightarrow> pystr" where
  \<comment> \<open>\<^verbatim>\<open>re.sub(r'[^A-Za-z0-9 ]+', '', text)\<close>: every run of characters outside the class
      is deleted, which leaves the characters of the class in their order\<close>
  "re_sub_special s = filter alnum_or_space s"

definition lower :: "pystr \<Rightarrow> pystr" where
  \<comment> \<open>\<^verbatim>\<open>str.lower\<close> on the ASCII characters, the only ones \<^verbatim>\<open>clean_text\<close> passes to it\<close>
  "lower s = map (\<lambda>c. if 65 \<le> c \<and> c \<le> 90 then c + 32 else c) s"

fun clean_text :: "pyval \<Rightarrow> pyerror + pystr" where
  \<comment> \<open>\<^verbatim>\<open>re.sub\<close> raises TypeError on an argument that is not a string\<close>
  "clean_text (PyStr text) = Inr (lower (re_sub_special (re_sub_newline (re_sub_url text))))"
| "clean_text _ = Inl TypeError"

subsection \<open>Cell 5: the label columns\<close>

definition labels :: "string list" where
  "labels = [''toxic'', ''severe_toxic'', ''obscene'', ''threat'', ''insult'', ''identity_hate'']"

text \<open>A row of the data frame after cells 4 and 5: the cleaned text and the six label
  columns, each an integer (\<^verbatim>\<open>pd.to_numeric(...).fillna(0).astype(int)\<close>).\<close>

record row =
  comment_text :: pystr
  toxic :: int
  severe_toxic :: int
  obscene :: int
  threat :: int
  insult :: int
  identity_hate :: int

text \<open>A pandas Series and a numpy array carry one dtype for all their entries.
  \<^verbatim>\<open>df.iloc[index]\<close> is the row as a Series over the columns of the frame, labelled by the
  column names. Its dtype is the common dtype of the columns: \<^verbatim>\<open>int64\<close> when all of them
  hold integers, \<^verbatim>\<open>object\<close> as soon as one of them holds strings, which \<^verbatim>\<open>comment_text\<close>
  does (the \<^verbatim>\<open>id\<close> column of the file, a string as well, is left out).\<close>

datatype dtype = Int64 | Object

record series =
  s_dtype :: dtype
  s_items :: "(string \<times> pyval) list"

record ndarray =
  a_dtype :: dtype
  a_values :: "pyval list"

definition common_dtype :: "pyval list \<Rightarrow> dtype" where
  "common_dtype vs =
     (if list_all (\<lambda>v. case v of PyInt i \<Rightarrow> True | _ \<Rightarrow> False) vs then Int64 else Object)"

definition row_series :: "row \<Rightarrow> series" where
  "row_series r =
     (let its = [(''comment_text'', PyStr (comment_text r)),
                 (''toxic'', PyInt (toxic r)), (''severe_toxic'', PyInt (severe_toxic r)),
                 (''obscene'', PyInt (obscene r)), (''threat'', PyInt (threat r)),
                 (''insult'', PyInt (insult r)), (''identity_hate'', PyInt (identity_hate r))]
      in \<lparr>s_dtype = common_dtype (map snd its), s_items = its\<rparr>)"

fun lookup_all :: "(string \<times> pyval) list \<Rightarrow> string list \<Rightarrow> pyerror + (string \<times> pyval) list" where
  "lookup_all its [] = Inr []"
| "lookup_all its (name # names) =
     (case map_of its name of
        None \<Rightarrow> Inl KeyError
      | Some v \<Rightarrow>
          (case lookup_all its names of Inl e \<Rightarrow> Inl e | Inr vs \<Rightarrow> Inr ((name, v) # vs)))"

definition select :: "series \<Rightarrow> string list \<Rightarrow> pyerror + series" where
  \<comment> \<open>\<^verbatim>\<open>series[names]\<close>: the named entries in the order of the names, under the dtype of
      the series; KeyError for a name that is no label of the series\<close>
  "select s names =
     (case lookup_all (s_items s) names of
        Inl e \<Rightarrow> Inl e
      | Inr its \<Rightarrow> Inr \<lparr>s_dtype = s_dtype s, s_items = its\<rparr>)"

definition values_of :: "series \<Rightarrow> ndarray" where
  \<comment> \<open>\<^verbatim>\<open>series.values\<close>\<close>
  "values_of s = \<lparr>a_dtype = s_dtype s, a_values = map snd (s_items s)\<rparr>"

fun as_floats :: "pyval list \<Rightarrow> pyerror + real list" where
  "as_floats [] = Inr []"
| "as_floats (PyInt i # vs) =
     (case as_floats vs of Inl e \<Rightarrow> Inl e | Inr xs \<Rightarrow> Inr (real_of_int i # xs))"
| "as_floats (v # vs) = Inl TypeError"

definition torch_tensor_float :: "ndarray \<Rightarrow> pyerror + real list" where
  \<comment> \<open>\<^verbatim>\<open>torch.tensor(array, dtype=torch.float)\<close>: a numpy array of dtype \<^verbatim>\<open>object\<close> is
      refused with TypeError, whatever its entries; an integer array is converted\<close>
  "torch_tensor_float a = (if a_dtype a = Object then Inl TypeError else as_floats (a_values a))"

definition iloc :: "'a list \<Rightarrow> int \<Rightarrow> pyerror + 'a" where
  \<comment> \<open>\<^verbatim>\<open>df.iloc[index]\<close>: positional, a negative index counts from the end, IndexError
      out of bounds\<close>
  "iloc rows index =
     (let n = int (length rows)
      in if index \<ge> n \<or> index < - n then Inl IndexError
         else Inr (rows ! nat (if index < 0 then index + n else index)))"

subsection \<open>Cell 6: the train and validation split\<close>

text \<open>Modelled from the spec: \<^verbatim>\<open>train_test_split\<close> is scikit-learn's and is not in the
  repository; the notebook only calls it, with \<^verbatim>\<open>test_size=0.1\<close> and
  \<^verbatim>\<open>random_state=RANDOM_SEED\<close>. Section 4.2 of the spec: a deterministic random partition in
  which \<open>fraction\<close> of the examples go to validation. The model shuffles the positions with
  the generator that the seed starts, gives the first \<open>\<lceil>fraction * n\<rceil>\<close> of them to
  validation and the rest to train; every row keeps its position, as a pandas row keeps its
  index. The permutation drawn by a generator is a parameter, \<open>seeded\<close> starts a generator
  from a seed, and the ambient generator \<open>g\<close> of the process is passed through untouched.\<close>

definition split ::
  "('g \<Rightarrow> nat \<Rightarrow> nat list \<times> 'g) \<Rightarrow> (nat \<Rightarrow> 'g) \<Rightarrow> 'g \<Rightarrow> 'a list \<Rightarrow> real \<Rightarrow> nat
     \<Rightarrow> ((nat \<times> 'a) list \<times> (nat \<times> 'a) list) \<times> 'g" where
  "split permutation seeded g exampleSet fraction seed =
     (let n = length exampleSet;
          n_validation = nat \<lceil>fraction * real n\<rceil>;
          order = fst (permutation (seeded seed) n);
          rows_at = map (\<lambda>i. (i, exampleSet ! i))
      in ((rows_at (drop n_validation order), rows_at (take n_validation order)), g))"

definition RANDOM_SEED :: nat where
  "RANDOM_SEED = 42"

subsection \<open>Cell 8: \<^verbatim>\<open>ToxicCommentsDataset\<close>\<close>

text \<open>What \<^verbatim>\<open>tokenizer.encode_plus\<close> returns; the tokenizer itself is the transformers
  library's, a function of the text and of \<^verbatim>\<open>max_length\<close> (the other arguments are the
  constants \<^verbatim>\<open>add_special_tokens=True\<close>, \<^verbatim>\<open>padding='max_length'\<close>, \<^verbatim>\<open>truncation=True\<close>,
  \<^verbatim>\<open>return_token_type_ids=True\<close>).\<close>

record encoding =
  enc_input_ids :: "int list"
  enc_attention_mask :: "int list"
  enc_token_type_ids :: "int list"

record example =
  input_ids :: "int list"
  attention_mask :: "int list"
  token_type_ids :: "int list"
  targets :: "real list"

record dataset =
  df :: "row list"
  tokenizer :: "pystr \<Rightarrow> nat \<Rightarrow> encoding"
  max_len :: nat
  self_labels :: "string list"

definition ToxicCommentsDataset ::
  "row list \<Rightarrow> (pystr \<Rightarrow> nat \<Rightarrow> encoding) \<Rightarrow> nat \<Rightarrow> string list \<Rightarrow> dataset" where
  \<comment> \<open>\<^verbatim>\<open>__init__\<close>\<close>
  "ToxicCommentsDataset dataframe tok maxlen labs =
     \<lparr>df = dataframe, tokenizer = tok, max_len = maxlen, self_labels = labs\<rparr>"

definition len :: "dataset \<Rightarrow> nat" where
  \<comment> \<open>\<^verbatim>\<open>__len__\<close>\<close>
  "len self = length (df self)"

definition getitem :: "dataset \<Rightarrow> int \<Rightarrow> pyerror + example" where
  \<comment> \<open>\<^verbatim>\<open>__getitem__\<close>; the text is the entry \<^verbatim>\<open>comment_text\<close> of the row\<close>
  "getitem self index =
     (case iloc (df self) index of
        Inl e \<Rightarrow> Inl e
      | Inr r \<Rightarrow>
          (let inputs = tokenizer self (comment_text r) (max_len self)
           in case iloc (df self) index of
                Inl e \<Rightarrow> Inl e
              | Inr r' \<Rightarrow>
                  (case select (row_series r') (self_labels self) of
                     Inl e \<Rightarrow> Inl e
                   | Inr picked \<Rightarrow>
                       (case torch_tensor_float (values_of picked) of
                          Inl e \<Rightarrow> Inl e
                        | Inr tgts \<Rightarrow>
                            Inr \<lparr>input_ids = enc_input_ids inputs,
                                 attention_mask = enc_attention_mask inputs,
                                 token_type_ids = enc_token_type_ids inputs,
                                 targets = tgts\<rparr>))))"

subsection \<open>Cell 9: the data loaders\<close>

definition MAX_LEN :: nat where
  "MAX_LEN = 128"

definition BATCH_SIZE :: nat where
  "BATCH_SIZE = 16"

text \<open>Modelled from the spec: \<^verbatim>\<open>DataLoader\<close> is PyTorch's and is not in the repository; the
  notebook only constructs two of them, with \<^verbatim>\<open>batch_size=BATCH_SIZE\<close> and a shuffle flag.
  Section 4.4 of the spec: the indices are visited in store order, or in a fresh random
  permutation when \<open>shuffle\<close> is set, and are grouped into batches of \<open>batchSize\<close>, the last
  batch holding the remainder.\<close>

function batched :: "nat \<Rightarrow> 'a list \<Rightarrow> 'a list list" where
  "batched batchSize xs =
     (if batchSize = 0 \<or> xs = [] then []
      else take batchSize xs # batched batchSize (drop batchSize xs))"
  by pat_completeness auto
termination
  by (relation "measure (\<lambda>(batchSize, xs). length xs)") auto

declare batched.simps [simp del]

text \<open>Modelled from the spec: one traversal of the loader over a dataset of \<open>n\<close> examples
  (section 4.4), as the batches of indices and the generator it leaves behind.\<close>

definition traversal ::
  "('g \<Rightarrow> nat \<Rightarrow> nat list \<times> 'g) \<Rightarrow> nat \<Rightarrow> nat \<Rightarrow> bool \<Rightarrow> 'g \<Rightarrow> nat list list \<times> 'g" where
  "traversal permutation n batchSize shuffle g =
     (if shuffle
      then (let (order, g') = permutation g n in (batched batchSize order, g'))
      else (batched batchSize [0..<n], g))"

subsection \<open>The PyTorch session\<close>

text \<open>
  \<^verbatim>\<open>train_epoch\<close> and \<^verbatim>\<open>eval_model\<close> work by side effects on objects of PyTorch: the
  parameters of the model and its training flag, the gradients, the optimizer with its
  learning rate, the global gradient mode and the random generator that dropout draws from.
  These are the fields of the state that both functions take and return. The state also
  keeps the sequence of the PyTorch calls made so far, one event per call, which is what a
  statement on their order is about.

  A batch of the loader is the list of its examples; \<^verbatim>\<open>batch['input_ids']\<close> is the list of
  their \<open>input_ids\<close>, and so on. A data loader is the list of the batches of one traversal, and
  \<^verbatim>\<open>len(data_loader)\<close> is the number of these batches. \<^verbatim>\<open>.to(device)\<close> and \<^verbatim>\<open>.cpu()\<close> move a
  tensor and keep its values, \<^verbatim>\<open>.item()\<close> and \<^verbatim>\<open>.numpy()\<close> read them.
\<close>

type_synonym matrix = "real list list"

type_synonym batch = "example list"

datatype event =
    ModuleTrain | ModuleEval | NoGradEnter | NoGradExit
  | Forward bool bool | Criterion
  | ZeroGrad | Backward | ClipGradNorm real | OptimizerStep | SchedulerStep

record ('p, 'g, 'o, 'r) session =
  params :: 'p
  training :: bool
  grad_enabled :: bool
  grads :: 'g
  optim :: 'o
  generator :: 'r
  trace :: "event list"

text \<open>A model is called with its parameters, its training flag, the generator and the three
  index tensors of a batch; it returns the logits, one row for each example, and the generator
  it leaves behind. A criterion maps logits and targets to the loss.\<close>

type_synonym ('p, 'r) module =
  "'p \<Rightarrow> bool \<Rightarrow> 'r \<Rightarrow> int list list \<Rightarrow> int list list \<Rightarrow> int list list \<Rightarrow> matrix \<times> 'r"

type_synonym criterion = "matrix \<Rightarrow> matrix \<Rightarrow> real"

text \<open>What the notebook uses of PyTorch's autograd and optimizer: \<^verbatim>\<open>loss.backward()\<close> adds
  the gradient of the loss of this batch to the stored gradients, \<^verbatim>\<open>optimizer.zero_grad()\<close>
  clears them, \<^verbatim>\<open>clip_grad_norm_\<close> rescales them under a ceiling for their norm,
  \<^verbatim>\<open>optimizer.step()\<close> computes new parameters and a new optimizer state.\<close>

record ('p, 'g, 'o, 'r) torch =
  autograd :: "('p, 'r) module \<Rightarrow> criterion \<Rightarrow> 'p \<Rightarrow> bool \<Rightarrow> 'r \<Rightarrow> batch \<Rightarrow> 'g \<Rightarrow> 'g"
  cleared :: "'g \<Rightarrow> 'g"
  clipped :: "real \<Rightarrow> 'g \<Rightarrow> 'g"
  updated :: "'o \<Rightarrow> 'p \<Rightarrow> 'g \<Rightarrow> 'p \<times> 'o"

definition emit :: "event \<Rightarrow> ('p, 'g, 'o, 'r) session \<Rightarrow> ('p, 'g, 'o, 'r) session" where
  "emit e s = s\<lparr>trace := trace s @ [e]\<rparr>"

definition model_train :: "('p, 'g, 'o, 'r) session \<Rightarrow> ('p, 'g, 'o, 'r) session" where
  \<comment> \<open>\<^verbatim>\<open>model.train()\<close>\<close>
  "model_train s = emit ModuleTrain (s\<lparr>training := True\<rparr>)"

definition model_eval :: "('p, 'g, 'o, 'r) session \<Rightarrow> ('p, 'g, 'o, 'r) session" where
  \<comment> \<open>\<^verbatim>\<open>model.eval()\<close>\<close>
  "model_eval s = emit ModuleEval (s\<lparr>training := False\<rparr>)"

definition model_call ::
  "('p, 'r) module \<Rightarrow> batch \<Rightarrow> ('p, 'g, 'o, 'r) session \<Rightarrow> matrix \<times> ('p, 'g, 'o, 'r) session" where
  \<comment> \<open>\<^verbatim>\<open>model(input_ids, attention_mask, token_type_ids)\<close>; the event records the training
      flag and the gradient mode of the call\<close>
  "model_call model b s =
     (let (outputs, g') = model (params s) (training s) (generator s)
                            (map input_ids b) (map attention_mask b) (map token_type_ids b)
      in (outputs, emit (Forward (training s) (grad_enabled s)) (s\<lparr>generator := g'\<rparr>)))"

definition optimizer_zero_grad ::
  "('p, 'g, 'o, 'r) torch \<Rightarrow> ('p, 'g, 'o, 'r) session \<Rightarrow> ('p, 'g, 'o, 'r) session" where
  "optimizer_zero_grad lib s = emit ZeroGrad (s\<lparr>grads := cleared lib (grads s)\<rparr>)"

definition loss_backward ::
  "('p, 'g, 'o, 'r) torch \<Rightarrow> ('p, 'r) module \<Rightarrow> criterion \<Rightarrow> 'r \<Rightarrow> batch
     \<Rightarrow> ('p, 'g, 'o, 'r) session \<Rightarrow> ('p, 'g, 'o, 'r) session" where
  \<comment> \<open>\<open>g0\<close> is the generator the forward pass of this batch started from\<close>
  "loss_backward lib model crit g0 b s =
     emit Backward
       (s\<lparr>grads := autograd lib model crit (params s) (training s) g0 b (grads s)\<rparr>)"

definition clip_grad_norm ::
  "('p, 'g, 'o, 'r) torch \<Rightarrow> real \<Rightarrow> ('p, 'g, 'o, 'r) session \<Rightarrow> ('p, 'g, 'o, 'r) session" where
  "clip_grad_norm lib max_norm s =
     emit (ClipGradNorm max_norm) (s\<lparr>grads := clipped lib max_norm (grads s)\<rparr>)"

definition optimizer_step ::
  "('p, 'g, 'o, 'r) torch \<Rightarrow> ('p, 'g, 'o, 'r) session \<Rightarrow> ('p, 'g, 'o, 'r) session" where
  "optimizer_step lib s =
     (let (p', o') = updated lib (optim s) (params s) (grads s)
      in emit OptimizerStep (s\<lparr>params := p', optim := o'\<rparr>))"

definition scheduler_step ::
  "('o \<Rightarrow> 'o) \<Rightarrow> ('p, 'g, 'o, 'r) session \<Rightarrow> ('p, 'g, 'o, 'r) session" where
  \<comment> \<open>\<^verbatim>\<open>scheduler.step()\<close> sets the learning rate held by the optimizer\<close>
  "scheduler_step sched s = emit SchedulerStep (s\<lparr>optim := sched (optim s)\<rparr>)"

subsection \<open>Cell 10: \<^verbatim>\<open>BertForToxicComment\<close>\<close>

text \<open>The model holds the pretrained encoder and the linear layer \<^verbatim>\<open>out\<close>; the dropout layer
  has no parameters. The encoder is the transformers library's \<^verbatim>\<open>BertModel\<close>, a parameter
  of \<open>forward\<close>: from its weights, the training flag, the generator and the three index
  tensors it gives the pooled output, one vector for each example.\<close>

record 'e bert_for_toxic_comment =
  bert :: 'e
  out_weight :: matrix
  out_bias :: "real list"

text \<open>Modelled from the spec: \<^verbatim>\<open>nn.Dropout\<close> is PyTorch's. Section 4.5: the dropout, of rate
  0.3, is active only in training mode, where it zeroes entries at random (\<open>random_zero\<close>, a
  parameter, draws from the generator).\<close>

definition Dropout ::
  "(real \<Rightarrow> 'r \<Rightarrow> matrix \<Rightarrow> matrix \<times> 'r) \<Rightarrow> real \<Rightarrow> bool \<Rightarrow> 'r \<Rightarrow> matrix \<Rightarrow> matrix \<times> 'r" where
  "Dropout random_zero p train g x = (if train then random_zero p g x else (x, g))"

text \<open>Modelled from the spec: \<^verbatim>\<open>nn.Linear\<close> is PyTorch's. Section 4.5: a learned affine
  projection, here of every pooled vector to one output for each row of the weight.\<close>

definition Linear :: "matrix \<Rightarrow> real list \<Rightarrow> matrix \<Rightarrow> matrix" where
  "Linear weight bias x =
     map (\<lambda>v. map (\<lambda>(w, c). sum_list (map2 (*) w v) + c) (zip weight bias)) x"

definition forward ::
  "('e \<Rightarrow> bool \<Rightarrow> 'r \<Rightarrow> int list list \<Rightarrow> int list list \<Rightarrow> int list list \<Rightarrow> matrix \<times> 'r)
     \<Rightarrow> (real \<Rightarrow> 'r \<Rightarrow> matrix \<Rightarrow> matrix \<times> 'r)
     \<Rightarrow> ('e bert_for_toxic_comment, 'r) module" where
  "forward BertModel random_zero self train g ids attn type_ids =
     (let (pooled_output, g1) = BertModel (bert self) train g ids attn type_ids;
          (output, g2) = Dropout random_zero 0.3 train g1 pooled_output
      in (Linear (out_weight self) (out_bias self) output, g2))"

subsection \<open>Cell 11: the loss\<close>

text \<open>Modelled from the spec: \<^verbatim>\<open>nn.BCEWithLogitsLoss()\<close> is PyTorch's. Section 4.6: the
  elementwise binary cross-entropy with logits, averaged over batch and labels.\<close>

definition sigmoid :: "real \<Rightarrow> real" where
  "sigmoid x = 1 / (1 + exp (- x))"

definition bce_with_logits :: "real \<Rightarrow> real \<Rightarrow> real" where
  "bce_with_logits x y = - (y * ln (sigmoid x) + (1 - y) * ln (1 - sigmoid x))"

definition BCEWithLogitsLoss :: criterion where
  "BCEWithLogitsLoss outputs tgts =
     (let losses = map2 bce_with_logits (concat outputs) (concat tgts)
      in sum_list losses / real (length losses))"

subsection \<open>Cell 12: \<^verbatim>\<open>train_epoch\<close>\<close>

definition train_batch ::
  "('p, 'g, 'o, 'r) torch \<Rightarrow> ('p, 'r) module \<Rightarrow> criterion \<Rightarrow> ('o \<Rightarrow> 'o) option \<Rightarrow> batch
     \<Rightarrow> ('p, 'g, 'o, 'r) session \<Rightarrow> real \<times> ('p, 'g, 'o, 'r) session" where
  \<comment> \<open>the body of the loop; it returns \<^verbatim>\<open>loss.item()\<close>\<close>
  "train_batch lib model crit scheduler b s =
     (let (outputs, s1) = model_call model b s;
          loss = crit outputs (map targets b);
          s2 = emit Criterion s1;
          s3 = optimizer_zero_grad lib s2;
          s4 = loss_backward lib model crit (generator s) b s3;
          s5 = clip_grad_norm lib 1.0 s4;
          s6 = optimizer_step lib s5;
          s7 = (case scheduler of None \<Rightarrow> s6 | Some sched \<Rightarrow> scheduler_step sched s6)
      in (loss, s7))"

fun train_loop ::
  "('p, 'g, 'o, 'r) torch \<Rightarrow> ('p, 'r) module \<Rightarrow> criterion \<Rightarrow> ('o \<Rightarrow> 'o) option \<Rightarrow> batch list
     \<Rightarrow> real \<Rightarrow> ('p, 'g, 'o, 'r) session \<Rightarrow> real \<times> ('p, 'g, 'o, 'r) session" where
  \<comment> \<open>\<^verbatim>\<open>for batch in tqdm(data_loader): ...; total_loss += loss.item()\<close>\<close>
  "train_loop lib model crit scheduler [] total_loss s = (total_loss, s)"
| "train_loop lib model crit scheduler (b # bs) total_loss s =
     (let (loss, s') = train_batch lib model crit scheduler b s
      in train_loop lib model crit scheduler bs (total_loss + loss) s')"

definition train_epoch ::
  "('p, 'g, 'o, 'r) torch \<Rightarrow> ('p, 'r) module \<Rightarrow> batch list \<Rightarrow> criterion \<Rightarrow> ('o \<Rightarrow> 'o) option
     \<Rightarrow> ('p, 'g, 'o, 'r) session \<Rightarrow> (pyerror + real) \<times> ('p, 'g, 'o, 'r) session" where
  "train_epoch lib model data_loader crit scheduler s =
     (let (total_loss, s') = train_loop lib model crit scheduler data_loader 0 (model_train s)
      in (if length data_loader = 0 then Inl ZeroDivisionError
          else Inr (total_loss / real (length data_loader)), s'))"

text \<open>The losses of the batches of an epoch, in the order of the batches, each computed in
  the session that the batches before it have left.\<close>

fun batch_losses ::
  "('p, 'g, 'o, 'r) torch \<Rightarrow> ('p, 'r) module \<Rightarrow> criterion \<Rightarrow> ('o \<Rightarrow> 'o) option \<Rightarrow> batch list
     \<Rightarrow> ('p, 'g, 'o, 'r) session \<Rightarrow> real list" where
  "batch_losses lib model crit scheduler [] s = []"
| "batch_losses lib model crit scheduler (b # bs) s =
     (let (loss, s') = train_batch lib model crit scheduler b s
      in loss # batch_losses lib model crit scheduler bs s')"

subsection \<open>Cell 14: \<^verbatim>\<open>eval_model\<close>\<close>

text \<open>A float that \<^verbatim>\<open>roc_auc_score\<close> returns is a number or nan. A value of the dictionary
  \<^verbatim>\<open>roc_auc\<close> is the float that \<^verbatim>\<open>roc_auc_score\<close> returned, or the string that the
  \<^verbatim>\<open>except\<close> branch stores.\<close>

datatype pyfloat = Finite real | NaN

datatype score = Float pyfloat | Text pystr

definition undefined_marker :: pystr where
  "undefined_marker = py ''Undefined (only one class present)''"

definition np_concatenate :: "matrix list \<Rightarrow> pyerror + matrix" where
  \<comment> \<open>\<^verbatim>\<open>np.concatenate\<close> along the rows; it raises ValueError on an empty list of arrays\<close>
  "np_concatenate arrays = (if arrays = [] then Inl ValueError else Inr (concat arrays))"

definition column :: "matrix \<Rightarrow> nat \<Rightarrow> pyerror + real list" where
  \<comment> \<open>\<^verbatim>\<open>a[:, i]\<close>; IndexError when the rows have no entry \<open>i\<close>\<close>
  "column a i = (if list_all (\<lambda>v. i < length v) a then Inr (map (\<lambda>v. v ! i) a) else Inl IndexError)"

fun eval_loop ::
  "('p, 'r) module \<Rightarrow> criterion \<Rightarrow> batch list \<Rightarrow> real \<Rightarrow> matrix list \<Rightarrow> matrix list
     \<Rightarrow> ('p, 'g, 'o, 'r) session
     \<Rightarrow> (real \<times> matrix list \<times> matrix list) \<times> ('p, 'g, 'o, 'r) session" where
  "eval_loop model crit [] total_loss all_targets all_outputs s =
     ((total_loss, all_targets, all_outputs), s)"
| "eval_loop model crit (b # bs) total_loss all_targets all_outputs s =
     (let (outputs, s1) = model_call model b s;
          loss = crit outputs (map targets b);
          s2 = emit Criterion s1
      in eval_loop model crit bs (total_loss + loss)
           (all_targets @ [map targets b]) (all_outputs @ [map (map sigmoid) outputs]) s2)"

fun roc_auc_loop ::
  "(real list \<Rightarrow> real list \<Rightarrow> pyerror + pyfloat) \<Rightarrow> matrix \<Rightarrow> matrix \<Rightarrow> (nat \<times> string) list
     \<Rightarrow> (string \<rightharpoonup> score) \<Rightarrow> pyerror + (string \<rightharpoonup> score)" where
  \<comment> \<open>\<^verbatim>\<open>for i, label in enumerate(labels): try: ... except ValueError: ...\<close>; an exception
      that is not a ValueError leaves the loop\<close>
  "roc_auc_loop roc_auc_score all_targets all_outputs [] roc_auc = Inr roc_auc"
| "roc_auc_loop roc_auc_score all_targets all_outputs ((i, label) # rest) roc_auc =
     (case column all_targets i of
        Inl e \<Rightarrow> Inl e
      | Inr y_true \<Rightarrow>
          (case column all_outputs i of
             Inl e \<Rightarrow> Inl e
           | Inr y_score \<Rightarrow>
               (case roc_auc_score y_true y_score of
                  Inr v \<Rightarrow>
                    roc_auc_loop roc_auc_score all_targets all_outputs rest
                      (roc_auc(label \<mapsto> Float v))
                | Inl e \<Rightarrow>
                    if e = ValueError
                    then roc_auc_loop roc_auc_score all_targets all_outputs rest
                           (roc_auc(label \<mapsto> Text undefined_marker))
                    else Inl e)))"

definition eval_model ::
  "('p, 'r) module \<Rightarrow> batch list \<Rightarrow> criterion \<Rightarrow> (real list \<Rightarrow> real list \<Rightarrow> pyerror + pyfloat)
     \<Rightarrow> ('p, 'g, 'o, 'r) session
     \<Rightarrow> (pyerror + real \<times> (string \<rightharpoonup> score)) \<times> ('p, 'g, 'o, 'r) session" where
  "eval_model model data_loader crit roc_auc_score s =
     (let s1 = model_eval s;
          s2 = emit NoGradEnter (s1\<lparr>grad_enabled := False\<rparr>);
          ((total_loss, all_targets, all_outputs), s3) = eval_loop model crit data_loader 0 [] [] s2;
          s4 = emit NoGradExit (s3\<lparr>grad_enabled := grad_enabled s1\<rparr>)
      in (if length data_loader = 0 then Inl ZeroDivisionError
          else (case np_concatenate all_targets of
                  Inl e \<Rightarrow> Inl e
                | Inr tgts \<Rightarrow>
                    (case np_concatenate all_outputs of
                       Inl e \<Rightarrow> Inl e
                     | Inr outs \<Rightarrow>
                         (case roc_auc_loop roc_auc_score tgts outs (enumerate 0 labels) Map.empty of
                            Inl e \<Rightarrow> Inl e
                          | Inr roc_auc \<Rightarrow>
                              Inr (total_loss / real (length data_loader), roc_auc)))),
          s4))"

text \<open>\<^verbatim>\<open>roc_auc_score\<close> is scikit-learn's, a parameter of \<^verbatim>\<open>eval_model\<close> above.\<close>

text \<open>Modelled from the spec: the ranking score of the glossary, the probability that a
  positive example is scored higher than a negative one, a tie counting for one half, on
  binary targets. With one class only it is not defined, and \<open>single_class\<close> is what the
  library does then.\<close>

definition ranking_score ::
  "(pyerror + pyfloat) \<Rightarrow> real list \<Rightarrow> real list \<Rightarrow> pyerror + pyfloat" where
  "ranking_score single_class y_true y_score =
     (let pos = map snd (filter (\<lambda>(y, v). y = 1) (zip y_true y_score));
          neg = map snd (filter (\<lambda>(y, v). y = 0) (zip y_true y_score))
      in if length y_true \<noteq> length y_score \<or> y_true = []
            \<or> \<not> list_all (\<lambda>y. y = 0 \<or> y = 1) y_true
         then Inl ValueError
         else if pos = [] \<or> neg = [] then single_class
         else Inr (Finite
                (sum_list (concat (map (\<lambda>p. map (\<lambda>q. if q < p then 1 else if q = p then 1 / 2 else 0) neg) pos))
                 / real (length pos * length neg))))"

text \<open>Modelled from the spec: section 7 has the ranking score signal a ValueError on a label
  with a single class, as scikit-learn does up to version 1.5.\<close>

definition roc_auc_score :: "real list \<Rightarrow> real list \<Rightarrow> pyerror + pyfloat" where
  "roc_auc_score = ranking_score (Inl ValueError)"

text \<open>The \<^verbatim>\<open>roc_auc_score\<close> of scikit-learn from version 1.6 on, which the unpinned
  \<^verbatim>\<open>pip install scikit-learn\<close> of cell 1 installs: on a label with a single class it warns
  and returns nan, and raises nothing.\<close>

definition roc_auc_score_nan :: "real list \<Rightarrow> real list \<Rightarrow> pyerror + pyfloat" where
  "roc_auc_score_nan = ranking_score (Inr NaN)"

subsection \<open>Small instances\<close>

text \<open>A tokenizer that pads or truncates the code points of the text to \<open>n\<close> entries, and one
  row of the data frame.\<close>

definition tok0 :: "pystr \<Rightarrow> nat \<Rightarrow> encoding" where
  "tok0 text n = \<lparr>enc_input_ids = take n (map int text @ replicate n 0),
                 enc_attention_mask = take n (map (\<lambda>_. 1) text @ replicate n 0),
                 enc_token_type_ids = replicate n 0\<rparr>"

definition row0 :: row where
  "row0 = \<lparr>comment_text = py ''you are bad'', toxic = 1, severe_toxic = 0, obscene = 0,
           threat = 0, insult = 1, identity_hate = 0\<rparr>"

text \<open>An encoder with one weight and a pooled output of width one, a dropout that zeroes
  every entry and advances the generator, a classifier whose linear layer has six outputs,
  and a session that holds it. The optimizer of \<open>toy_torch\<close> adds the gradient to the bias
  and counts its steps; the criterion \<open>toy_criterion\<close> is one plus the mean logit.\<close>

definition toy_bert ::
  "real \<Rightarrow> bool \<Rightarrow> nat \<Rightarrow> int list list \<Rightarrow> int list list \<Rightarrow> int list list \<Rightarrow> matrix \<times> nat" where
  "toy_bert e train g ids attn type_ids = (map (\<lambda>v. [e * real_of_int (sum_list v)]) ids, g)"

definition toy_zero :: "real \<Rightarrow> nat \<Rightarrow> matrix \<Rightarrow> matrix \<times> nat" where
  "toy_zero p g x = (map (map (\<lambda>_. 0)) x, Suc g)"

definition toy_self :: "real bert_for_toxic_comment" where
  "toy_self = \<lparr>bert = 1, out_weight = [[0], [0], [0], [0], [0], [0]],
               out_bias = [0, 0, 0, 0, 0, 0]\<rparr>"

definition toy_session :: "(real bert_for_toxic_comment, real, nat, nat) session" where
  "toy_session = \<lparr>params = toy_self, training = False, grad_enabled = True, grads = 0,
                  optim = 0, generator = 0, trace = []\<rparr>"

definition toy_torch :: "(real bert_for_toxic_comment, real, nat, nat) torch" where
  "toy_torch = \<lparr>autograd = (\<lambda>model crit p t g b gr. gr + 2),
                cleared = (\<lambda>gr. 0),
                clipped = (\<lambda>max_norm gr. min max_norm gr),
                updated = (\<lambda>opt p gr. (p\<lparr>out_bias := map (\<lambda>c. c + gr) (out_bias p)\<rparr>, Suc opt))\<rparr>"

definition toy_criterion :: criterion where
  "toy_criterion outputs tgts = 1 + sum_list (concat outputs) / real (length (concat outputs))"

definition toy_loader :: "batch list" where
  "toy_loader =
     [[\<lparr>input_ids = [1, 2], attention_mask = [1, 1], token_type_ids = [0, 0],
        targets = [1, 0, 0, 0, 1, 0]\<rparr>],
      [\<lparr>input_ids = [3, 0], attention_mask = [1, 0], token_type_ids = [0, 0],
        targets = [0, 0, 0, 0, 1, 0]\<rparr>]]"

section \<open>Verification\<close>

subsection \<open>Text cleaning\<close>

lemma url_at_iff:
  "url_at s \<longleftrightarrow> (\<exists>c rest. s = 104 # 116 # 116 # 112 # c # rest \<and> \<not> is_space c)"
proof
  assume u: "url_at s"
  then have t: "take 4 s = [104, 116, 116, 112]" and d: "drop 4 s \<noteq> []"
    by (auto simp: url_at_def split: list.splits)
  from d obtain c rest where dr: "drop 4 s = c # rest" by (cases "drop 4 s") auto
  have "s = take 4 s @ drop 4 s" by simp
  with t dr have "s = 104 # 116 # 116 # 112 # c # rest" by simp
  moreover from u dr have "\<not> is_space c" by (simp add: url_at_def)
  ultimately show "\<exists>c rest. s = 104 # 116 # 116 # 112 # c # rest \<and> \<not> is_space c" by blast
next
  assume "\<exists>c rest. s = 104 # 116 # 116 # 112 # c # rest \<and> \<not> is_space c"
  then show "url_at s" by (auto simp: url_at_def)
qed

lemma not_space_http: "\<not> is_space 104" "\<not> is_space 116" "\<not> is_space 112"
  by (simp_all add: is_space_def)

lemma url_at_head_nonspace: "url_at (c # t) \<Longrightarrow> \<not> is_space c"
  by (auto simp: url_at_iff not_space_http)

lemma re_sub_url_space_head:
  "s = [] \<or> is_space (hd s) \<Longrightarrow> re_sub_url s = [] \<or> is_space (hd (re_sub_url s))"
  by (cases s) (auto dest: url_at_head_nonspace)

lemma dropWhile_space_head:
  "dropWhile (\<lambda>x. \<not> is_space x) s = [] \<or> is_space (hd (dropWhile (\<lambda>x. \<not> is_space x) s))"
  using hd_dropWhile[of "\<lambda>x. \<not> is_space x" s] by auto

lemma re_sub_url_prefix:
  "n \<le> length (re_sub_url s) \<Longrightarrow> \<forall>x\<in>set (take n (re_sub_url s)). \<not> is_space x \<Longrightarrow>
   take n (re_sub_url s) = take n s"
proof (induction s arbitrary: n rule: re_sub_url.induct)
  case 1
  then show ?case by simp
next
  case (2 c cs)
  show ?case
  proof (cases "url_at (c # cs)")
    case True
    let ?r = "dropWhile (\<lambda>x. \<not> is_space x) (drop 4 (c # cs))"
    have res: "re_sub_url (c # cs) = re_sub_url ?r" using True by simp
    have sp: "re_sub_url ?r = [] \<or> is_space (hd (re_sub_url ?r))"
      by (rule re_sub_url_space_head) (rule dropWhile_space_head)
    have "n = 0"
    proof (rule ccontr)
      assume "n \<noteq> 0"
      then obtain m where n: "n = Suc m" by (cases n) auto
      from "2.prems"(1) n have ne: "re_sub_url (c # cs) \<noteq> []"
        by (metis length_0_conv not_less_eq_eq zero_le)
      then have "hd (re_sub_url (c # cs)) \<in> set (take n (re_sub_url (c # cs)))"
        unfolding n by (cases "re_sub_url (c # cs)") simp_all
      with "2.prems"(2) have "\<not> is_space (hd (re_sub_url (c # cs)))" by blast
      with sp ne show False unfolding res by blast
    qed
    then show ?thesis by simp
  next
    case False
    then have res: "re_sub_url (c # cs) = c # re_sub_url cs" by simp
    show ?thesis
    proof (cases n)
      case 0
      then show ?thesis by simp
    next
      case (Suc m)
      with "2.prems" res have "m \<le> length (re_sub_url cs)"
        and "\<forall>x\<in>set (take m (re_sub_url cs)). \<not> is_space x" by auto
      with "2.IH"(2)[OF False] have "take m (re_sub_url cs) = take m cs" by blast
      with Suc res show ?thesis by simp
    qed
  qed
qed

lemma url_at_re_sub_url_Cons:
  assumes "url_at (c # re_sub_url cs)"
  shows "url_at (c # cs)"
proof -
  from assms obtain d rest where e: "c # re_sub_url cs = 104 # 116 # 116 # 112 # d # rest"
    and d: "\<not> is_space d" by (auto simp: url_at_iff)
  then have r: "re_sub_url cs = 116 # 116 # 112 # d # rest" and c: "c = 104" by auto
  have "take 4 (re_sub_url cs) = take 4 cs"
    by (rule re_sub_url_prefix) (auto simp: r d not_space_http)
  with r have t: "take 4 cs = [116, 116, 112, d]" by simp
  have "cs = take 4 cs @ drop 4 cs" by simp
  with t have "cs = 116 # 116 # 112 # d # drop 4 cs" by simp
  with c d show ?thesis unfolding url_at_iff by blast
qed

lemma re_sub_url_no_match: "\<not> url_at (drop i (re_sub_url s))"
proof (induction s arbitrary: i rule: re_sub_url.induct)
  case 1
  then show ?case by (simp add: url_at_iff)
next
  case (2 c cs)
  show ?case
  proof (cases "url_at (c # cs)")
    case True
    with "2.IH"(1) show ?thesis by simp
  next
    case False
    show ?thesis
    proof (cases i)
      case 0
      with False url_at_re_sub_url_Cons[of c cs] show ?thesis by auto
    next
      case (Suc j)
      with False "2.IH"(2) show ?thesis by simp
    qed
  qed
qed

lemma clean_text_chars:
  "clean_text (PyStr text) = Inr out \<Longrightarrow> c \<in> set out \<Longrightarrow>
     (97 \<le> c \<and> c \<le> 122) \<or> (48 \<le> c \<and> c \<le> 57) \<or> c = 32"
  by (auto simp: lower_def re_sub_special_def alnum_or_space_def)

lemma clean_text_visit:
  "clean_text (PyStr (py ''Visit http://x.com NOW!!'')) = Inr (py ''visit  now'')"
  by (simp add: py_def url_at_def is_space_def re_sub_newline_def re_sub_special_def
      alnum_or_space_def lower_def)

lemma re_sub_newline_nth:
  "i < length text \<Longrightarrow> re_sub_newline text ! i = (if text ! i = 10 then 32 else text ! i)"
  by (simp add: re_sub_newline_def)

text \<open>
  C4. \<^verbatim>\<open>clean_text("Visit http://x.com NOW!!")\<close> is \<^verbatim>\<open>"visit  now"\<close>, with the two
  spaces that the removed URL leaves. On every string the function is the four steps in the
  source's order: the URL matches are removed first and none is left at any position; then
  every newline becomes one space, the text keeping its length; then only the characters of
  \<^verbatim>\<open>[A-Za-z0-9 ]\<close> are kept; then the text is lowercased, so that the result holds
  lowercase ASCII letters, digits and spaces only.
\<close>

theorem clean_text_steps:
  "clean_text (PyStr (py ''Visit http://x.com NOW!!'')) = Inr (py ''visit  now'')
   \<and> (\<forall>text. clean_text (PyStr text)
          = Inr (lower (re_sub_special (re_sub_newline (re_sub_url text)))))
   \<and> (\<forall>text i. \<not> url_at (drop i (re_sub_url text)))
   \<and> (\<forall>text. length (re_sub_newline text) = length text
          \<and> (\<forall>i < length text.
                re_sub_newline text ! i = (if text ! i = 10 then 32 else text ! i)))
   \<and> (\<forall>text. re_sub_special text = filter alnum_or_space text)
   \<and> (\<forall>text out. clean_text (PyStr text) = Inr out \<longrightarrow>
          (\<forall>c \<in> set out. (97 \<le> c \<and> c \<le> 122) \<or> (48 \<le> c \<and> c \<le> 57) \<or> c = 32))"
proof (intro conjI allI impI ballI)
  show "clean_text (PyStr (py ''Visit http://x.com NOW!!'')) = Inr (py ''visit  now'')"
    by (rule clean_text_visit)
next
  fix tx
  show "clean_text (PyStr tx) = Inr (lower (re_sub_special (re_sub_newline (re_sub_url tx))))"
    by simp
next
  fix tx i
  show "\<not> url_at (drop i (re_sub_url tx))" by (rule re_sub_url_no_match)
next
  fix tx
  show "length (re_sub_newline tx) = length tx" by (simp add: re_sub_newline_def)
next
  fix tx :: pystr and i
  assume "i < length tx"
  then show "re_sub_newline tx ! i = (if tx ! i = 10 then 32 else tx ! i)"
    by (rule re_sub_newline_nth)
next
  fix tx
  show "re_sub_special tx = filter alnum_or_space tx" by (simp add: re_sub_special_def)
next
  fix tx out c
  assume "clean_text (PyStr tx) = Inr out" and "c \<in> set out"
  then show "(97 \<le> c \<and> c \<le> 122) \<or> (48 \<le> c \<and> c \<le> 57) \<or> c = 32"
    by (rule clean_text_chars)
qed

theorem clean_text_steps_witness:
  "clean_text (PyStr (py ''Go\<newline>http://a.b/c D?'')) = Inr (py ''go  d'')
   \<and> list_all (\<lambda>c. (97 \<le> c \<and> c \<le> 122) \<or> (48 \<le> c \<and> c \<le> 57) \<or> c = 32) (py ''go  d'')
   \<and> \<not> url_at (drop 3 (re_sub_url (py ''Go\<newline>http://a.b/c D?'')))
   \<and> re_sub_newline (py ''Go\<newline>http://a.b/c D?'') ! 2 = 32"
proof -
  let ?t = "py ''Go\<newline>http://a.b/c D?''"
  have e: "clean_text (PyStr ?t) = Inr (py ''go  d'')"
    by (simp add: py_def url_at_def is_space_def re_sub_newline_def re_sub_special_def
        alnum_or_space_def lower_def)
  have l: "2 < length ?t" and n: "?t ! 2 = 10" by (simp_all add: py_def)
  have c: "\<forall>c \<in> set (py ''go  d''). (97 \<le> c \<and> c \<le> 122) \<or> (48 \<le> c \<and> c \<le> 57) \<or> c = 32"
    using clean_text_steps e by blast
  have u: "\<not> url_at (drop 3 (re_sub_url ?t))"
    using clean_text_steps by blast
  have "re_sub_newline ?t ! 2 = (if ?t ! 2 = 10 then 32 else ?t ! 2)"
    using clean_text_steps l by blast
  with n have "re_sub_newline ?t ! 2 = 32" by simp
  with e c u show ?thesis unfolding list_all_iff by blast
qed

text \<open>
  C9, as the code has it. \<^verbatim>\<open>clean_text\<close> returns a string for every string, the empty one
  included, and for nothing else: it does not coerce its argument, and a value that is not a
  string makes \<^verbatim>\<open>re.sub\<close> raise TypeError. The function reads its argument only, so its
  result depends on nothing else.
\<close>

theorem clean_text_on_strings:
  "(\<forall>t. \<exists>s. clean_text (PyStr t) = Inr s)
   \<and> clean_text (PyStr []) = Inr []
   \<and> (\<forall>v. (\<exists>s. clean_text v = Inr s) \<longleftrightarrow> (\<exists>t. v = PyStr t))
   \<and> (\<forall>v. (\<forall>t. v \<noteq> PyStr t) \<longrightarrow> clean_text v = Inl TypeError)"
proof (intro conjI allI impI)
  fix t show "\<exists>s. clean_text (PyStr t) = Inr s" by simp
next
  show "clean_text (PyStr []) = Inr []"
    by (simp add: re_sub_newline_def re_sub_special_def lower_def)
next
  fix v show "(\<exists>s. clean_text v = Inr s) \<longleftrightarrow> (\<exists>t. v = PyStr t)" by (cases v) auto
next
  fix v assume "\<forall>t. v \<noteq> PyStr t"
  then show "clean_text v = Inl TypeError" by (cases v) auto
qed

theorem clean_text_on_strings_witness:
  "clean_text PyNone = Inl TypeError
   \<and> clean_text (PyInt 5) = Inl TypeError
   \<and> (\<exists>s. clean_text (PyStr (py ''Hi!'')) = Inr s)
   \<and> clean_text (PyStr []) = Inr []"
proof -
  have "\<forall>t. PyNone \<noteq> PyStr t" and "\<forall>t. PyInt 5 \<noteq> PyStr t" by simp_all
  with clean_text_on_strings show ?thesis by blast
qed

text \<open>A missing cell, the float NaN, given to \<^verbatim>\<open>clean_text\<close>: \<^verbatim>\<open>re.sub\<close> raises TypeError,
  and no string is returned.\<close>

theorem clean_text_nan_fails:
  "clean_text PyNaN = Inl TypeError \<and> \<not> (\<exists>s. clean_text PyNaN = Inr s)"
  by simp

subsection \<open>The dataset\<close>

lemma iloc_in_range:
  "- int (length rows) \<le> index \<Longrightarrow> index < int (length rows) \<Longrightarrow>
     iloc rows index = Inr (rows ! nat (if index < 0 then index + int (length rows) else index))"
  by (simp add: iloc_def Let_def)

lemma iloc_out_of_range:
  "index < - int (length rows) \<or> int (length rows) \<le> index \<Longrightarrow> iloc rows index = Inl IndexError"
  by (auto simp: iloc_def Let_def)

lemma row_series_object: "s_dtype (row_series r) = Object"
  by (simp add: row_series_def common_dtype_def)

lemma select_labels:
  "select (row_series r) labels =
     Inr \<lparr>s_dtype = Object,
          s_items = [(''toxic'', PyInt (toxic r)), (''severe_toxic'', PyInt (severe_toxic r)),
                     (''obscene'', PyInt (obscene r)), (''threat'', PyInt (threat r)),
                     (''insult'', PyInt (insult r)), (''identity_hate'', PyInt (identity_hate r))]\<rparr>"
  by (simp add: select_def row_series_def common_dtype_def labels_def)

lemma lookup_all_error: "lookup_all its names = Inl e \<Longrightarrow> e = KeyError"
  by (induction names arbitrary: e) (auto split: option.splits sum.splits)

lemma select_error: "select s names = Inl e \<Longrightarrow> e = KeyError"
  by (auto simp: select_def split: sum.splits dest: lookup_all_error)

lemma select_dtype: "select s names = Inr s' \<Longrightarrow> s_dtype s' = s_dtype s"
  by (auto simp: select_def split: sum.splits)

lemma getitem_out_of_range:
  assumes "index < - int (length rows) \<or> int (length rows) \<le> index"
  shows "getitem (ToxicCommentsDataset rows tok n labs) index = Inl IndexError"
  using assms by (simp add: getitem_def ToxicCommentsDataset_def iloc_out_of_range)

lemma getitem_in_range:
  assumes "- int (length rows) \<le> index" and "index < int (length rows)"
  shows "getitem (ToxicCommentsDataset rows tok n labs) index = Inl KeyError
       \<or> getitem (ToxicCommentsDataset rows tok n labs) index = Inl TypeError"
proof -
  let ?r = "rows ! nat (if index < 0 then index + int (length rows) else index)"
  show ?thesis
  proof (cases "select (row_series ?r) labs")
    case (Inl e)
    then have "e = KeyError" by (rule select_error)
    with Inl assms show ?thesis
      by (simp add: getitem_def ToxicCommentsDataset_def iloc_in_range Let_def)
  next
    case (Inr picked)
    then have "s_dtype picked = Object" using select_dtype row_series_object by metis
    then have "torch_tensor_float (values_of picked) = Inl TypeError"
      by (simp add: torch_tensor_float_def values_of_def)
    with Inr assms show ?thesis
      by (simp add: getitem_def ToxicCommentsDataset_def iloc_in_range Let_def)
  qed
qed

lemma getitem_labels_in_range:
  assumes "- int (length rows) \<le> index" and "index < int (length rows)"
  shows "getitem (ToxicCommentsDataset rows tok n labels) index = Inl TypeError"
  using assms
  by (simp add: getitem_def ToxicCommentsDataset_def iloc_in_range Let_def select_labels
      torch_tensor_float_def values_of_def)

text \<open>
  C6, where the code fails. On a dataset of one row built as in cell 9, \<^verbatim>\<open>__getitem__\<close> at
  index 0 raises TypeError and returns no example. The six label entries are read in the
  order toxic, severe_toxic, obscene, threat, insult, identity_hate, but they are read from
  the row, a Series of dtype \<^verbatim>\<open>object\<close>, and \<^verbatim>\<open>torch.tensor\<close> refuses the array of that dtype;
  the same six integers in an integer array are converted to the six floats.
\<close>

theorem getitem_raises_type_error:
  "getitem (ToxicCommentsDataset [row0] tok0 MAX_LEN labels) 0 = Inl TypeError
   \<and> select (row_series row0) labels =
       Inr \<lparr>s_dtype = Object,
            s_items = [(''toxic'', PyInt 1), (''severe_toxic'', PyInt 0), (''obscene'', PyInt 0),
                       (''threat'', PyInt 0), (''insult'', PyInt 1), (''identity_hate'', PyInt 0)]\<rparr>
   \<and> torch_tensor_float
         \<lparr>a_dtype = Object, a_values = [PyInt 1, PyInt 0, PyInt 0, PyInt 0, PyInt 1, PyInt 0]\<rparr>
       = Inl TypeError
   \<and> torch_tensor_float
         \<lparr>a_dtype = Int64, a_values = [PyInt 1, PyInt 0, PyInt 0, PyInt 0, PyInt 1, PyInt 0]\<rparr>
       = Inr [1, 0, 0, 0, 1, 0]"
proof (intro conjI)
  show "getitem (ToxicCommentsDataset [row0] tok0 MAX_LEN labels) 0 = Inl TypeError"
    by (rule getitem_labels_in_range) simp_all
  show "select (row_series row0) labels =
       Inr \<lparr>s_dtype = Object,
            s_items = [(''toxic'', PyInt 1), (''severe_toxic'', PyInt 0), (''obscene'', PyInt 0),
                       (''threat'', PyInt 0), (''insult'', PyInt 1), (''identity_hate'', PyInt 0)]\<rparr>"
    by (simp add: select_labels row0_def)
qed (simp_all add: torch_tensor_float_def)

text \<open>
  C7, as the code has it. \<^verbatim>\<open>__getitem__\<close> reads the row with \<^verbatim>\<open>df.iloc[index]\<close>, which
  takes a negative index as counting from the end: the call fails with IndexError exactly
  for the indices with \<open>index < - len\<close> or \<open>len \<le> index\<close>, whatever the tokenizer and the
  label names. Nothing catches the error, which is the result of the call.
\<close>

theorem getitem_index_error:
  "getitem (ToxicCommentsDataset rows tok n labs) index = Inl IndexError
     \<longleftrightarrow> index < - int (len (ToxicCommentsDataset rows tok n labs))
          \<or> int (len (ToxicCommentsDataset rows tok n labs)) \<le> index"
proof -
  have l: "len (ToxicCommentsDataset rows tok n labs) = length rows"
    by (simp add: len_def ToxicCommentsDataset_def)
  show ?thesis
  proof (cases "index < - int (length rows) \<or> int (length rows) \<le> index")
    case True
    with getitem_out_of_range[OF True, of tok n labs] l show ?thesis by simp
  next
    case False
    then have "- int (length rows) \<le> index" and "index < int (length rows)" by simp_all
    from getitem_in_range[OF this, of tok n labs] False l show ?thesis by auto
  qed
qed

theorem getitem_index_error_witness:
  "getitem (ToxicCommentsDataset [row0, row0] tok0 4 labels) 2 = Inl IndexError
   \<and> getitem (ToxicCommentsDataset [row0, row0] tok0 4 labels) (- 3) = Inl IndexError
   \<and> getitem (ToxicCommentsDataset [row0, row0] tok0 4 labels) (- 2) \<noteq> Inl IndexError
   \<and> getitem (ToxicCommentsDataset [row0, row0] tok0 4 labels) 1 \<noteq> Inl IndexError"
  using getitem_index_error[of "[row0, row0]" tok0 4 labels 2]
    getitem_index_error[of "[row0, row0]" tok0 4 labels "- 3"]
    getitem_index_error[of "[row0, row0]" tok0 4 labels "- 2"]
    getitem_index_error[of "[row0, row0]" tok0 4 labels 1]
  by (simp add: len_def ToxicCommentsDataset_def)

text \<open>On a dataset of one row, the index \<open>-1\<close> is outside \<open>0 \<le> index < len\<close>;
  \<^verbatim>\<open>df.iloc[-1]\<close> is the last row, and the call does not fail with IndexError.\<close>

theorem getitem_negative_index:
  "len (ToxicCommentsDataset [row0] tok0 4 labels) = 1
   \<and> \<not> (0 \<le> (- 1 :: int))
   \<and> iloc (df (ToxicCommentsDataset [row0] tok0 4 labels)) (- 1) = Inr row0
   \<and> getitem (ToxicCommentsDataset [row0] tok0 4 labels) (- 1) = Inl TypeError
   \<and> getitem (ToxicCommentsDataset [row0] tok0 4 labels) (- 1) \<noteq> Inl IndexError"
proof -
  have "getitem (ToxicCommentsDataset [row0] tok0 4 labels) (- 1) = Inl TypeError"
    by (rule getitem_labels_in_range) simp_all
  then show ?thesis
    by (simp add: len_def ToxicCommentsDataset_def iloc_def)
qed

subsection \<open>The split and the batch loader\<close>

lemma perm_upt_facts:
  assumes "mset order = mset [0..<n]"
  shows "distinct order" and "set order = {0..<n}" and "length order = n"
proof -
  from assms show "distinct order" by (metis distinct_upt mset_eq_imp_distinct_iff)
  from assms show "set order = {0..<n}" by (metis mset_eq_setD set_upt)
  from assms show "length order = n" by (metis length_upt mset_eq_length minus_nat.diff_0)
qed

lemma split_parts:
  "split permutation seeded g xs f seed =
     ((map (\<lambda>i. (i, xs ! i)) (drop (nat \<lceil>f * real (length xs)\<rceil>) (fst (permutation (seeded seed) (length xs)))),
       map (\<lambda>i. (i, xs ! i)) (take (nat \<lceil>f * real (length xs)\<rceil>) (fst (permutation (seeded seed) (length xs))))), g)"
  by (simp add: split_def Let_def)

lemma ceiling_fraction:
  fixes f :: real
  assumes "0 \<le> f" and "f \<le> 1"
  shows "nat \<lceil>f * real n\<rceil> \<le> n" and "\<bar>real (nat \<lceil>f * real n\<rceil>) - f * real n\<bar> < 1"
proof -
  have nn: "0 \<le> f * real n" using assms by simp
  have le: "f * real n \<le> real n" using assms by (simp add: mult_left_le_one_le)
  then show "nat \<lceil>f * real n\<rceil> \<le> n" by simp
  have "0 \<le> \<lceil>f * real n\<rceil>" using nn by simp
  then have "real (nat \<lceil>f * real n\<rceil>) = of_int \<lceil>f * real n\<rceil>" by simp
  moreover have "of_int \<lceil>f * real n\<rceil> - f * real n < 1" by linarith
  moreover have "f * real n \<le> of_int \<lceil>f * real n\<rceil>" by linarith
  ultimately show "\<bar>real (nat \<lceil>f * real n\<rceil>) - f * real n\<bar> < 1" by linarith
qed

text \<open>
  C3. When the seeded generator draws a permutation of the positions, the train and the
  validation part are disjoint and without repetition, together they are the rows of the
  example set at their positions, the share of the validation part differs from the fraction
  \<open>f\<close> (between 0 and 1) by less than one example, and the partition depends on the
  example set, the fraction and the seed only: the ambient generator is neither read nor
  changed, so a second call returns the same partition.
\<close>

theorem split_partition:
  assumes perm: "mset (fst (permutation (seeded seed) (length xs))) = mset [0..<length xs]"
  shows "let ((train, validation), g') = split permutation seeded g xs f seed in
           set train \<inter> set validation = {}
         \<and> distinct (train @ validation)
         \<and> set train \<union> set validation = set (enumerate 0 xs)
         \<and> mset (map snd (train @ validation)) = mset xs
         \<and> (xs \<noteq> [] \<and> 0 \<le> f \<and> f \<le> 1 \<longrightarrow>
               \<bar>real (length validation) / real (length xs) - f\<bar> < 1 / real (length xs))
         \<and> g' = g
         \<and> (\<forall>h. fst (split permutation seeded h xs f seed) = (train, validation))"
proof -
  define n where "n = length xs"
  define order where "order = fst (permutation (seeded seed) n)"
  define k where "k = nat \<lceil>f * real n\<rceil>"
  define pick where "pick = (\<lambda>i. (i, xs ! i))"
  have m: "mset order = mset [0..<n]" using perm by (simp add: order_def n_def)
  note fs = perm_upt_facts[OF m]
  have sp: "\<And>h. split permutation seeded h xs f seed = ((map pick (drop k order), map pick (take k order)), h)"
    by (simp add: split_parts order_def k_def n_def pick_def)
  have d: "distinct (drop k order @ take k order)"
    using fs(1) by (metis append_take_drop_id distinct_append inf_commute)
  then have "distinct (map pick (drop k order @ take k order))"
    unfolding distinct_map by (simp add: inj_on_def pick_def)
  then have d': "distinct (map pick (drop k order) @ map pick (take k order))"
    by simp
  then have i: "set (map pick (drop k order)) \<inter> set (map pick (take k order)) = {}"
    by simp
  have "set (drop k order) \<union> set (take k order) = set order"
    by (metis append_take_drop_id set_append sup_commute)
  then have "set (map pick (drop k order)) \<union> set (map pick (take k order)) = pick ` {0..<n}"
    using fs(2) by (simp add: image_Un[symmetric])
  also have "pick ` {0..<n} = set (enumerate 0 xs)"
    by (auto simp: pick_def in_set_enumerate_eq n_def image_iff)
  finally have u: "set (map pick (drop k order)) \<union> set (map pick (take k order)) = set (enumerate 0 xs)" .
  have "mset (drop k order @ take k order) = mset order"
    by (metis append_take_drop_id mset_append union_commute)
  then have "mset (map ((!) xs) (drop k order @ take k order)) = mset (map ((!) xs) [0..<n])"
    using m by (metis mset_map)
  also have "map ((!) xs) [0..<n] = xs" by (simp add: n_def map_nth)
  finally have r: "mset (map snd (map pick (drop k order) @ map pick (take k order))) = mset xs"
    by (simp add: pick_def comp_def)
  have sz: "xs \<noteq> [] \<and> 0 \<le> f \<and> f \<le> 1 \<longrightarrow>
        \<bar>real (length (map pick (take k order))) / real (length xs) - f\<bar> < 1 / real (length xs)"
  proof
    assume a: "xs \<noteq> [] \<and> 0 \<le> f \<and> f \<le> 1"
    then have npos: "0 < real n" by (simp add: n_def)
    from a have f01: "0 \<le> f" "f \<le> 1" by simp_all
    have le: "k \<le> n" unfolding k_def by (rule ceiling_fraction(1)[OF f01])
    have ab: "\<bar>real k - f * real n\<bar> < 1" unfolding k_def by (rule ceiling_fraction(2)[OF f01])
    from le fs(3) have len: "length (map pick (take k order)) = k" by simp
    have "real k / real n - f = (real k - f * real n) / real n"
      using npos by (simp add: field_simps)
    then have "\<bar>real k / real n - f\<bar> = \<bar>real k - f * real n\<bar> / real n"
      using npos by simp
    also have "\<dots> < 1 / real n" using ab npos by (simp add: divide_strict_right_mono)
    finally show "\<bar>real (length (map pick (take k order))) / real (length xs) - f\<bar> < 1 / real (length xs)"
      using len by (simp add: n_def)
  qed
  show ?thesis
    unfolding sp Let_def prod.case fst_conv using i d' u r sz by blast
qed

theorem split_partition_witness:
  "split (\<lambda>g n. (rev [0..<n], Suc g)) (\<lambda>s. s) (7::nat) [''a'', ''b'', ''c'', ''d'', ''e''] (1/10) RANDOM_SEED
     = (([(3, ''d''), (2, ''c''), (1, ''b''), (0, ''a'')], [(4, ''e'')]), 7)
   \<and> set [(3, ''d''), (2, ''c''), (1, ''b''), (0::nat, ''a'')] \<inter> set [(4, ''e'')] = {}
   \<and> \<bar>real (length [(4::nat, ''e'')]) / real (length [''a'', ''b'', ''c'', ''d'', ''e'']) - 1/10\<bar>
       < 1 / real (length [''a'', ''b'', ''c'', ''d'', ''e''])"
proof -
  let ?p = "\<lambda>(g::nat) n. (rev [0..<n], Suc g)"
  let ?xs = "[''a'', ''b'', ''c'', ''d'', ''e'']"
  have u: "[0..<5] = [0, 1, 2, 3, 4]" by (simp add: upt_rec)
  have "\<lceil>(1/10) * real (5::nat)\<rceil> = 1" by (rule ceiling_unique) simp_all
  then have c: "nat \<lceil>(1/10) * real (5::nat)\<rceil> = 1" by simp
  have e: "split ?p (\<lambda>s. s) (7::nat) ?xs (1/10) RANDOM_SEED
     = (([(3, ''d''), (2, ''c''), (1, ''b''), (0, ''a'')], [(4, ''e'')]), 7)"
    unfolding split_def Let_def using c by (simp add: u)
  have p: "mset (fst (?p ((\<lambda>s. s) RANDOM_SEED) (length ?xs))) = mset [0..<length ?xs]" by simp
  have h: "?xs \<noteq> [] \<and> (0::real) \<le> 1/10 \<and> (1/10::real) \<le> 1" by simp
  from split_partition[of ?p "\<lambda>s. s" RANDOM_SEED ?xs 7 "1/10", OF p] h show ?thesis
    unfolding e Let_def prod.case by blast
qed

lemma batched_unfold:
  "0 < k \<Longrightarrow> xs \<noteq> [] \<Longrightarrow> batched k xs = take k xs # batched k (drop k xs)"
  by (subst batched.simps) simp

lemma batched_Nil [simp]: "batched k [] = []"
  by (subst batched.simps) simp

lemma batched_eq_Nil: "0 < k \<Longrightarrow> batched k xs = [] \<longleftrightarrow> xs = []"
  by (subst batched.simps) simp

lemma concat_batched: "0 < k \<Longrightarrow> concat (batched k xs) = xs"
proof (induction k xs rule: batched.induct)
  case (1 k xs)
  show ?case
  proof (cases "xs = []")
    case True
    then show ?thesis by simp
  next
    case False
    with 1 show ?thesis by (simp add: batched_unfold)
  qed
qed

lemma butlast_batched: "0 < k \<Longrightarrow> b \<in> set (butlast (batched k xs)) \<Longrightarrow> length b = k"
proof (induction k xs rule: batched.induct)
  case (1 k xs)
  show ?case
  proof (cases "xs = []")
    case True
    with 1 show ?thesis by simp
  next
    case False
    note ne = this
    show ?thesis
    proof (cases "drop k xs = []")
      case True
      with 1 ne show ?thesis by (simp add: batched_unfold)
    next
      case False
      then have lt: "k < length xs" by simp
      from False "1.prems"(1) have "batched k (drop k xs) \<noteq> []" by (simp add: batched_eq_Nil)
      with "1.prems" ne have "b = take k xs \<or> b \<in> set (butlast (batched k (drop k xs)))"
        by (simp add: batched_unfold)
      then show ?thesis
      proof
        assume "b = take k xs"
        with lt show ?thesis by simp
      next
        assume "b \<in> set (butlast (batched k (drop k xs)))"
        with "1.IH" "1.prems"(1) ne show ?thesis by simp
      qed
    qed
  qed
qed

lemma last_batched:
  "0 < k \<Longrightarrow> xs \<noteq> [] \<Longrightarrow>
     length (last (batched k xs)) = (if length xs mod k \<noteq> 0 then length xs mod k else k)"
proof (induction k xs rule: batched.induct)
  case (1 k xs)
  show ?case
  proof (cases "drop k xs = []")
    case True
    then have le: "length xs \<le> k" by simp
    from "1.prems" have pos: "0 < length xs" by simp
    from True "1.prems" have "last (batched k xs) = take k xs" by (simp add: batched_unfold)
    moreover from le have "length (take k xs) = length xs" by simp
    moreover have "(if length xs mod k \<noteq> 0 then length xs mod k else k) = length xs"
    proof (cases "length xs = k")
      case True
      then show ?thesis by simp
    next
      case False
      with le have "length xs < k" by simp
      with pos show ?thesis by simp
    qed
    ultimately show ?thesis by simp
  next
    case False
    then have lt: "k < length xs" by simp
    from False "1.prems"(1) have ne: "batched k (drop k xs) \<noteq> []" by (simp add: batched_eq_Nil)
    with "1.prems" have "last (batched k xs) = last (batched k (drop k xs))"
      by (simp add: batched_unfold)
    also have "length \<dots> = (if length (drop k xs) mod k \<noteq> 0 then length (drop k xs) mod k else k)"
      using "1.IH" "1.prems" False by simp
    also have "length (drop k xs) mod k = length xs mod k"
      using lt by (simp add: le_mod_geq)
    finally show ?thesis .
  qed
qed

text \<open>
  C5. For a positive batch size, and a generator whose permutation of \<open>n\<close> is a
  permutation of the indices \<open>0..<n\<close>, the batches of one traversal, concatenated, hold
  every index of the dataset exactly once, with the shuffle flag set or not (in store order
  when it is not set); every batch but the last has \<open>batchSize\<close> indices, and the last one
  has \<open>n mod batchSize\<close> if that is not zero, else \<open>batchSize\<close>.
\<close>

theorem traversal_covers:
  assumes pos: "0 < batchSize"
    and perm: "\<forall>g n. mset (fst (permutation g n)) = mset [0..<n]"
  shows "let bs = fst (traversal permutation n batchSize shuffle g) in
           mset (concat bs) = mset [0..<n]
         \<and> distinct (concat bs) \<and> set (concat bs) = {0..<n}
         \<and> (\<not> shuffle \<longrightarrow> concat bs = [0..<n])
         \<and> (\<forall>b \<in> set (butlast bs). length b = batchSize)
         \<and> (bs \<noteq> [] \<longrightarrow>
               length (last bs) = (if n mod batchSize \<noteq> 0 then n mod batchSize else batchSize))"
proof -
  define order where "order = (if shuffle then fst (permutation g n) else [0..<n])"
  have bs: "fst (traversal permutation n batchSize shuffle g) = batched batchSize order"
    by (simp add: traversal_def order_def split: prod.splits)
  have m: "mset order = mset [0..<n]" using perm by (simp add: order_def)
  note f = perm_upt_facts[OF m]
  have c: "concat (batched batchSize order) = order" using pos by (rule concat_batched)
  have l: "batched batchSize order \<noteq> [] \<longrightarrow> length (last (batched batchSize order))
            = (if n mod batchSize \<noteq> 0 then n mod batchSize else batchSize)"
    using last_batched[OF pos, of order] f(3) pos by (auto simp: batched_eq_Nil)
  have b: "\<forall>b \<in> set (butlast (batched batchSize order)). length b = batchSize"
    using butlast_batched[OF pos] by blast
  have o: "\<not> shuffle \<longrightarrow> order = [0..<n]" by (simp add: order_def)
  show ?thesis
    unfolding Let_def bs c using m f l b o by simp
qed

theorem traversal_covers_witness:
  "fst (traversal (\<lambda>g n. (rev [0..<n], Suc g)) 5 2 True (0::nat)) = [[4, 3], [2, 1], [0]]
   \<and> mset (concat [[4, 3], [2, 1], [0::nat]]) = mset [0..<5]
   \<and> fst (traversal (\<lambda>g n. (rev [0..<n], Suc g)) 5 2 False (0::nat)) = [[0, 1], [2, 3], [4]]
   \<and> length (last [[4, 3], [2, 1], [0::nat]]) = 5 mod 2"
proof -
  let ?p = "\<lambda>(g::nat) n. (rev [0..<n], Suc g)"
  have p: "\<forall>g n. mset (fst (?p g n)) = mset [0..<n]" by simp
  have u: "[0..<5] = [0, 1, 2, 3, 4]" by (simp add: upt_rec)
  have t: "fst (traversal ?p 5 2 True 0) = [[4, 3], [2, 1], [0]]"
    by (simp add: traversal_def u batched_unfold)
  have t': "fst (traversal ?p 5 2 False 0) = [[0, 1], [2, 3], [4]]"
    by (simp add: traversal_def u batched_unfold)
  have "(2::nat) > 0" by simp
  from traversal_covers[OF this p, of 5 True 0] t t' show ?thesis
    by (simp add: Let_def)
qed

subsection \<open>The training loop\<close>

lemma emit_simps [simp]:
  "trace (emit e s) = trace s @ [e]" "params (emit e s) = params s"
  "training (emit e s) = training s" "grad_enabled (emit e s) = grad_enabled s"
  "grads (emit e s) = grads s" "optim (emit e s) = optim s" "generator (emit e s) = generator s"
  by (simp_all add: emit_def)

lemma model_call_simps [simp]:
  "trace (snd (model_call model b s)) = trace s @ [Forward (training s) (grad_enabled s)]"
  "params (snd (model_call model b s)) = params s"
  "training (snd (model_call model b s)) = training s"
  "grad_enabled (snd (model_call model b s)) = grad_enabled s"
  "grads (snd (model_call model b s)) = grads s"
  "optim (snd (model_call model b s)) = optim s"
  "fst (model_call model b s) = fst (model (params s) (training s) (generator s)
      (map input_ids b) (map attention_mask b) (map token_type_ids b))"
  "generator (snd (model_call model b s)) = snd (model (params s) (training s) (generator s)
      (map input_ids b) (map attention_mask b) (map token_type_ids b))"
  by (simp_all add: model_call_def case_prod_beta)

lemma train_batch_trace:
  "trace (snd (train_batch lib model crit scheduler b s)) =
     trace s @ [Forward (training s) (grad_enabled s), Criterion, ZeroGrad, Backward,
                ClipGradNorm 1, OptimizerStep]
             @ (case scheduler of None \<Rightarrow> [] | Some sched \<Rightarrow> [SchedulerStep])"
  by (simp add: train_batch_def optimizer_zero_grad_def loss_backward_def clip_grad_norm_def
      optimizer_step_def scheduler_step_def Let_def case_prod_beta split: option.splits)

lemma train_batch_flags:
  "training (snd (train_batch lib model crit scheduler b s)) = training s"
  "grad_enabled (snd (train_batch lib model crit scheduler b s)) = grad_enabled s"
  by (simp_all add: train_batch_def optimizer_zero_grad_def loss_backward_def clip_grad_norm_def
      optimizer_step_def scheduler_step_def Let_def case_prod_beta split: option.splits)

lemma train_batch_loss:
  "fst (train_batch lib model crit scheduler b s) =
     crit (fst (model_call model b s)) (map targets b)"
  by (simp add: train_batch_def Let_def case_prod_beta)

lemma train_batch_steps:
  "snd (train_batch lib model crit scheduler b s) =
     (case scheduler of None \<Rightarrow> (\<lambda>s. s) | Some sched \<Rightarrow> scheduler_step sched)
       (optimizer_step lib
         (clip_grad_norm lib 1
           (loss_backward lib model crit (generator s) b
             (optimizer_zero_grad lib
               (emit Criterion (snd (model_call model b s)))))))"
  by (simp add: train_batch_def Let_def case_prod_beta split: option.splits)

lemma train_loop_total:
  "fst (train_loop lib model crit scheduler bs acc s) =
     acc + sum_list (batch_losses lib model crit scheduler bs s)"
  by (induction bs arbitrary: acc s) (simp_all add: Let_def case_prod_beta)

lemma length_batch_losses:
  "length (batch_losses lib model crit scheduler bs s) = length bs"
  by (induction bs arbitrary: s) (simp_all add: Let_def case_prod_beta)

lemma train_loop_trace:
  "trace (snd (train_loop lib model crit scheduler bs acc s)) =
     trace s @ concat (map (\<lambda>b. [Forward (training s) (grad_enabled s), Criterion, ZeroGrad,
                                   Backward, ClipGradNorm 1, OptimizerStep]
                                @ (case scheduler of None \<Rightarrow> [] | Some sched \<Rightarrow> [SchedulerStep])) bs)"
proof (induction bs arbitrary: acc s)
  case Nil
  then show ?case by simp
next
  case (Cons b bs)
  obtain loss s' where tb: "train_batch lib model crit scheduler b s = (loss, s')"
    by (cases "train_batch lib model crit scheduler b s")
  then have s': "s' = snd (train_batch lib model crit scheduler b s)" by simp
  have "trace (snd (train_loop lib model crit scheduler (b # bs) acc s)) =
        trace (snd (train_loop lib model crit scheduler bs (acc + loss) s'))"
    by (simp add: tb)
  also have "\<dots> = trace s' @ concat (map (\<lambda>b. [Forward (training s') (grad_enabled s'), Criterion,
        ZeroGrad, Backward, ClipGradNorm 1, OptimizerStep]
        @ (case scheduler of None \<Rightarrow> [] | Some sched \<Rightarrow> [SchedulerStep])) bs)"
    by (rule Cons.IH)
  finally show ?case
    by (simp add: s' train_batch_trace train_batch_flags)
qed

lemma train_loop_flags:
  "training (snd (train_loop lib model crit scheduler bs acc s)) = training s"
  "grad_enabled (snd (train_loop lib model crit scheduler bs acc s)) = grad_enabled s"
  by (induction bs arbitrary: acc s) (simp_all add: Let_def case_prod_beta train_batch_flags)

text \<open>
  C2. Every batch goes through the loop body of \<^verbatim>\<open>train_epoch\<close>, which makes these calls in
  this order: the model is called for the logits, the criterion for the loss, the gradients
  are cleared, the loss is back-propagated, the gradient norm is clipped with the ceiling 1,
  the optimizer makes its step, and the scheduler, if there is one, makes one step. The
  criterion of the notebook is the binary cross-entropy with logits, averaged over all the
  entries of the batch. The epoch is \<^verbatim>\<open>model.train()\<close> and then these steps for every batch
  in turn, and for a loader that is not empty it returns the sum of the losses of the batches
  divided by their number.
\<close>

theorem train_epoch_steps:
  "(\<forall>b s. trace (snd (train_batch lib model crit scheduler b s)) =
       trace s @ [Forward (training s) (grad_enabled s), Criterion, ZeroGrad, Backward,
                  ClipGradNorm 1, OptimizerStep]
               @ (case scheduler of None \<Rightarrow> [] | Some sched \<Rightarrow> [SchedulerStep]))
   \<and> (\<forall>b s. fst (train_batch lib model crit scheduler b s) =
         crit (fst (model_call model b s)) (map targets b))
   \<and> (\<forall>b s. snd (train_batch lib model crit scheduler b s) =
         (case scheduler of None \<Rightarrow> (\<lambda>s. s) | Some sched \<Rightarrow> scheduler_step sched)
           (optimizer_step lib
             (clip_grad_norm lib 1
               (loss_backward lib model crit (generator s) b
                 (optimizer_zero_grad lib
                   (emit Criterion (snd (model_call model b s))))))))
   \<and> (\<forall>outputs tgts. BCEWithLogitsLoss outputs tgts =
         sum_list (map2 bce_with_logits (concat outputs) (concat tgts))
           / real (length (map2 bce_with_logits (concat outputs) (concat tgts))))
   \<and> trace (snd (train_epoch lib model data_loader crit scheduler s)) =
       trace s @ ModuleTrain #
         concat (map (\<lambda>b. [Forward True (grad_enabled s), Criterion, ZeroGrad, Backward,
                            ClipGradNorm 1, OptimizerStep]
                         @ (case scheduler of None \<Rightarrow> [] | Some sched \<Rightarrow> [SchedulerStep]))
                  data_loader)
   \<and> length (batch_losses lib model crit scheduler data_loader (model_train s)) = length data_loader
   \<and> (data_loader \<noteq> [] \<longrightarrow>
        fst (train_epoch lib model data_loader crit scheduler s) =
          Inr (sum_list (batch_losses lib model crit scheduler data_loader (model_train s))
               / real (length data_loader)))"
proof (intro conjI allI impI)
  fix b and s :: "('a, 'b, 'c, 'd) session"
  show "trace (snd (train_batch lib model crit scheduler b s)) =
       trace s @ [Forward (training s) (grad_enabled s), Criterion, ZeroGrad, Backward,
                  ClipGradNorm 1, OptimizerStep]
               @ (case scheduler of None \<Rightarrow> [] | Some sched \<Rightarrow> [SchedulerStep])"
    by (rule train_batch_trace)
  show "fst (train_batch lib model crit scheduler b s) =
         crit (fst (model_call model b s)) (map targets b)"
    by (rule train_batch_loss)
  show "snd (train_batch lib model crit scheduler b s) =
         (case scheduler of None \<Rightarrow> (\<lambda>s. s) | Some sched \<Rightarrow> scheduler_step sched)
           (optimizer_step lib
             (clip_grad_norm lib 1
               (loss_backward lib model crit (generator s) b
                 (optimizer_zero_grad lib
                   (emit Criterion (snd (model_call model b s)))))))"
    by (rule train_batch_steps)
next
  fix outputs tgts
  show "BCEWithLogitsLoss outputs tgts =
         sum_list (map2 bce_with_logits (concat outputs) (concat tgts))
           / real (length (map2 bce_with_logits (concat outputs) (concat tgts)))"
    by (simp add: BCEWithLogitsLoss_def Let_def)
next
  show "trace (snd (train_epoch lib model data_loader crit scheduler s)) =
       trace s @ ModuleTrain #
         concat (map (\<lambda>b. [Forward True (grad_enabled s), Criterion, ZeroGrad, Backward,
                            ClipGradNorm 1, OptimizerStep]
                         @ (case scheduler of None \<Rightarrow> [] | Some sched \<Rightarrow> [SchedulerStep]))
                  data_loader)"
    using train_loop_trace[of lib model crit scheduler data_loader 0 "model_train s"]
    by (simp add: train_epoch_def model_train_def case_prod_beta)
next
  show "length (batch_losses lib model crit scheduler data_loader (model_train s)) = length data_loader"
    by (rule length_batch_losses)
next
  assume "data_loader \<noteq> []"
  then show "fst (train_epoch lib model data_loader crit scheduler s) =
          Inr (sum_list (batch_losses lib model crit scheduler data_loader (model_train s))
               / real (length data_loader))"
    using train_loop_total[of lib model crit scheduler data_loader 0 "model_train s"]
    by (simp add: train_epoch_def case_prod_beta)
qed

subsection \<open>The evaluation loop\<close>

lemma eval_loop_frame:
  "params (snd (eval_loop model crit bs acc T O' s)) = params s"
  "grads (snd (eval_loop model crit bs acc T O' s)) = grads s"
  "optim (snd (eval_loop model crit bs acc T O' s)) = optim s"
  "training (snd (eval_loop model crit bs acc T O' s)) = training s"
  "grad_enabled (snd (eval_loop model crit bs acc T O' s)) = grad_enabled s"
  by (induction bs arbitrary: acc T O' s) (simp_all add: Let_def case_prod_beta)

lemma eval_loop_trace:
  "trace (snd (eval_loop model crit bs acc T O' s)) =
     trace s @ concat (map (\<lambda>b. [Forward (training s) (grad_enabled s), Criterion]) bs)"
  by (induction bs arbitrary: acc T O' s) (simp_all add: Let_def case_prod_beta)

lemma toy_forward_eval:
  "forward toy_bert toy_zero toy_self False g ids attn type_ids =
     (map (\<lambda>v. [0, 0, 0, 0, 0, 0]) ids, g)"
  by (simp add: forward_def Dropout_def toy_bert_def toy_self_def Linear_def comp_def)

lemma sigmoid_zero: "sigmoid 0 = 1 / 2"
  by (simp add: sigmoid_def)

lemma toy_eval_loop:
  "fst (eval_loop (forward toy_bert toy_zero) toy_criterion toy_loader 0 [] []
         (emit NoGradEnter ((model_eval toy_session)\<lparr>grad_enabled := False\<rparr>))) =
     (2, [[[1, 0, 0, 0, 1, 0]], [[0, 0, 0, 0, 1, 0]]],
         [[[1/2, 1/2, 1/2, 1/2, 1/2, 1/2]], [[1/2, 1/2, 1/2, 1/2, 1/2, 1/2]]])"
  by (simp add: toy_loader_def toy_session_def model_eval_def emit_def model_call_def Let_def
      toy_forward_eval toy_criterion_def sigmoid_zero)

lemma toy_columns:
  "column [[1, 0, 0, 0, 1, 0], [0, 0, 0, 0, 1, 0]] 0 = Inr [1, 0]"
  "column [[1, 0, 0, 0, 1, 0], [0, 0, 0, 0, 1, 0]] 1 = Inr [0, 0]"
  "column [[1/2, 1/2, 1/2, 1/2, 1/2, 1/2], [1/2, 1/2, 1/2, 1/2, 1/2, 1/2]] 0 = Inr [1/2, 1/2]"
  "column [[1/2, 1/2, 1/2, 1/2, 1/2, 1/2], [1/2, 1/2, 1/2, 1/2, 1/2, 1/2]] 1 = Inr [1/2, 1/2]"
  by (simp_all add: column_def)

lemma toy_scores:
  "roc_auc_score_nan [1, 0] [1/2, 1/2] = Inr (Finite (1/2))"
  "roc_auc_score_nan [0, 0] [1/2, 1/2] = Inr NaN"
  "roc_auc_score [1, 0] [1/2, 1/2] = Inr (Finite (1/2))"
  "roc_auc_score [0, 0] [1/2, 1/2] = Inl ValueError"
  by (simp_all add: roc_auc_score_nan_def roc_auc_score_def ranking_score_def)


lemma toy_roc_auc_nan:
  "roc_auc_loop roc_auc_score_nan [[1, 0, 0, 0, 1, 0], [0, 0, 0, 0, 1, 0]]
      [[1/2, 1/2, 1/2, 1/2, 1/2, 1/2], [1/2, 1/2, 1/2, 1/2, 1/2, 1/2]] (enumerate 0 labels) Map.empty
   = Inr (Map.empty(''toxic'' \<mapsto> Float (Finite (1/2)), ''severe_toxic'' \<mapsto> Float NaN,
        ''obscene'' \<mapsto> Float NaN, ''threat'' \<mapsto> Float NaN, ''insult'' \<mapsto> Float NaN,
        ''identity_hate'' \<mapsto> Float NaN))"
  by (simp add: labels_def enumerate_eq_zip upt_rec column_def roc_auc_score_nan_def
      ranking_score_def)

lemma toy_roc_auc_raise:
  "roc_auc_loop roc_auc_score [[1, 0, 0, 0, 1, 0], [0, 0, 0, 0, 1, 0]]
      [[1/2, 1/2, 1/2, 1/2, 1/2, 1/2], [1/2, 1/2, 1/2, 1/2, 1/2, 1/2]] (enumerate 0 labels) Map.empty
   = Inr (Map.empty(''toxic'' \<mapsto> Float (Finite (1/2)), ''severe_toxic'' \<mapsto> Text undefined_marker,
        ''obscene'' \<mapsto> Text undefined_marker, ''threat'' \<mapsto> Text undefined_marker,
        ''insult'' \<mapsto> Text undefined_marker, ''identity_hate'' \<mapsto> Text undefined_marker))"
  by (simp add: labels_def enumerate_eq_zip upt_rec column_def roc_auc_score_def
      ranking_score_def)

lemma toy_eval_model:
  "fst (eval_model (forward toy_bert toy_zero) toy_loader toy_criterion metric toy_session) =
     (case roc_auc_loop metric [[1, 0, 0, 0, 1, 0], [0, 0, 0, 0, 1, 0]]
        [[1/2, 1/2, 1/2, 1/2, 1/2, 1/2], [1/2, 1/2, 1/2, 1/2, 1/2, 1/2]] (enumerate 0 labels) Map.empty of
        Inl e \<Rightarrow> Inl e
      | Inr roc_auc \<Rightarrow> Inr (1, roc_auc))"
proof -
  have "length toy_loader = 2" by (simp add: toy_loader_def)
  then show ?thesis
    by (simp add: eval_model_def Let_def case_prod_beta toy_eval_loop np_concatenate_def
        cong: sum.case_cong)
qed

text \<open>
  C1, where the code fails. The validation loader holds two examples whose targets for the
  label severe_toxic are both 0, and whose targets for the label toxic are 1 and 0. With the
  \<^verbatim>\<open>roc_auc_score\<close> of scikit-learn from version 1.6 on, which returns nan on a single class
  and raises nothing, \<^verbatim>\<open>eval_model\<close> returns and the entry of severe_toxic is the float nan,
  not the string \<^verbatim>\<open>'Undefined (only one class present)'\<close>: the \<^verbatim>\<open>except ValueError\<close> branch is
  never entered. The entry of toxic is the number 1/2. With a \<^verbatim>\<open>roc_auc_score\<close> that raises
  ValueError on a single class, the same run stores the string for severe_toxic.
\<close>

theorem eval_model_reports_nan:
  "(\<exists>avg roc_auc.
      fst (eval_model (forward toy_bert toy_zero) toy_loader toy_criterion roc_auc_score_nan
             toy_session) = Inr (avg, roc_auc)
      \<and> roc_auc ''severe_toxic'' = Some (Float NaN)
      \<and> roc_auc ''severe_toxic'' \<noteq> Some (Text undefined_marker)
      \<and> roc_auc ''toxic'' = Some (Float (Finite (1 / 2))))
   \<and> map (\<lambda>v. v ! 1) (concat (map (map targets) toy_loader)) = [0, 0]
   \<and> (\<exists>avg roc_auc.
      fst (eval_model (forward toy_bert toy_zero) toy_loader toy_criterion roc_auc_score
             toy_session) = Inr (avg, roc_auc)
      \<and> roc_auc ''severe_toxic'' = Some (Text undefined_marker)
      \<and> roc_auc ''toxic'' = Some (Float (Finite (1 / 2))))"
  by (simp add: toy_eval_model toy_roc_auc_nan toy_roc_auc_raise) (simp add: toy_loader_def)

lemma roc_auc_score_errors: "roc_auc_score y_true y_score \<noteq> Inl ZeroDivisionError"
  by (simp add: roc_auc_score_def ranking_score_def Let_def)

lemma eval_model_frame:
  "params (snd (eval_model model data_loader crit metric s)) = params s"
  "grads (snd (eval_model model data_loader crit metric s)) = grads s"
  "optim (snd (eval_model model data_loader crit metric s)) = optim s"
  "training (snd (eval_model model data_loader crit metric s)) = False"
  "grad_enabled (snd (eval_model model data_loader crit metric s)) = grad_enabled s"
  by (simp_all add: eval_model_def Let_def case_prod_beta eval_loop_frame model_eval_def)

lemma eval_model_trace:
  "trace (snd (eval_model model data_loader crit metric s)) =
     trace s @ [ModuleEval, NoGradEnter]
       @ concat (map (\<lambda>b. [Forward False False, Criterion]) data_loader) @ [NoGradExit]"
  by (simp add: eval_model_def Let_def case_prod_beta eval_loop_trace model_eval_def)

lemma forward_eval:
  "forward BertModel random_zero self False g ids attn type_ids =
     (Linear (out_weight self) (out_bias self) (fst (BertModel (bert self) False g ids attn type_ids)),
      snd (BertModel (bert self) False g ids attn type_ids))"
  by (simp add: forward_def Dropout_def case_prod_beta)

text \<open>
  C8. \<^verbatim>\<open>eval_model\<close> leaves the parameters of the model as they were, for every model,
  loader, criterion and ranking score, whether it returns or raises; the gradients and the
  optimizer are untouched as well. Its calls are \<^verbatim>\<open>model.eval()\<close>, the entry of
  \<^verbatim>\<open>torch.no_grad()\<close>, then for every batch a forward pass made with the training flag off
  and the gradient mode off and the criterion, then the exit of \<^verbatim>\<open>torch.no_grad()\<close>: no
  backward pass, no optimizer step. With the training flag off the dropout layer returns its
  input and draws nothing from the generator, and the classifier's forward pass is the linear
  layer applied to the pooled output of the encoder.
\<close>

theorem eval_model_reads_only:
  "params (snd (eval_model model data_loader crit metric s)) = params s
   \<and> grads (snd (eval_model model data_loader crit metric s)) = grads s
   \<and> optim (snd (eval_model model data_loader crit metric s)) = optim s
   \<and> training (snd (eval_model model data_loader crit metric s)) = False
   \<and> grad_enabled (snd (eval_model model data_loader crit metric s)) = grad_enabled s
   \<and> trace (snd (eval_model model data_loader crit metric s)) =
       trace s @ [ModuleEval, NoGradEnter]
         @ concat (map (\<lambda>b. [Forward False False, Criterion]) data_loader) @ [NoGradExit]
   \<and> (\<forall>random_zero p g x. Dropout random_zero p False g x = (x, g))
   \<and> (\<forall>BertModel random_zero self g ids attn type_ids.
         forward BertModel random_zero self False g ids attn type_ids =
           (Linear (out_weight self) (out_bias self)
              (fst (BertModel (bert self) False g ids attn type_ids)),
            snd (BertModel (bert self) False g ids attn type_ids)))"
  by (intro conjI allI) (simp_all add: eval_model_frame eval_model_trace forward_eval Dropout_def)

theorem eval_model_reads_only_witness:
  "params (snd (eval_model (forward toy_bert toy_zero) toy_loader toy_criterion roc_auc_score
             toy_session)) = toy_self
   \<and> trace (snd (eval_model (forward toy_bert toy_zero) toy_loader toy_criterion roc_auc_score
             toy_session))
       = [ModuleEval, NoGradEnter, Forward False False, Criterion, Forward False False, Criterion,
          NoGradExit]
   \<and> generator (snd (eval_model (forward toy_bert toy_zero) toy_loader toy_criterion roc_auc_score
             toy_session)) = 0"
proof -
  have "generator (snd (eval_model (forward toy_bert toy_zero) toy_loader toy_criterion
          roc_auc_score toy_session)) = 0"
    by (simp add: eval_model_def Let_def case_prod_beta model_eval_def emit_def model_call_def
        toy_loader_def toy_session_def forward_def Dropout_def toy_bert_def)
  moreover have "params (snd (eval_model (forward toy_bert toy_zero) toy_loader toy_criterion
          roc_auc_score toy_session)) = toy_self"
    using eval_model_reads_only[THEN conjunct1, of "forward toy_bert toy_zero" toy_loader
        toy_criterion roc_auc_score toy_session]
    by (simp add: toy_session_def)
  moreover have "trace (snd (eval_model (forward toy_bert toy_zero) toy_loader toy_criterion
          roc_auc_score toy_session))
       = [ModuleEval, NoGradEnter, Forward False False, Criterion, Forward False False, Criterion,
          NoGradExit]"
    using eval_model_reads_only[THEN conjunct2, THEN conjunct2, THEN conjunct2, THEN conjunct2,
        THEN conjunct2, THEN conjunct1, of "forward toy_bert toy_zero" toy_loader
        toy_criterion roc_auc_score toy_session]
    by (simp add: toy_session_def toy_loader_def)
  ultimately show ?thesis by blast
qed

lemma roc_auc_loop_no_zero_division:
  assumes "\<forall>y p. metric y p \<noteq> Inl ZeroDivisionError"
  shows "roc_auc_loop metric T O' ps roc \<noteq> Inl ZeroDivisionError"
proof (induction ps arbitrary: roc)
  case Nil
  then show ?case by simp
next
  case (Cons a ps)
  obtain j k where a: "a = (j, k)" by (cases a)
  show ?case
    using assms Cons.IH unfolding a
    by (auto simp: column_def split: sum.splits if_splits)
qed

text \<open>
  C10. On a loader without batches both \<^verbatim>\<open>train_epoch\<close> and \<^verbatim>\<open>eval_model\<close> raise
  ZeroDivisionError, at \<^verbatim>\<open>total_loss / len(data_loader)\<close>. \<^verbatim>\<open>train_epoch\<close> returns the
  average loss exactly when the loader has a batch. \<^verbatim>\<open>eval_model\<close>, with a ranking score
  that does not itself raise ZeroDivisionError, raises it exactly when the loader has no
  batch, and whenever it returns, the loader has a batch and the average is the accumulated
  loss divided by the number of batches.
\<close>

theorem average_loss_needs_a_batch:
  "fst (train_epoch lib model [] crit scheduler s) = Inl ZeroDivisionError
   \<and> fst (eval_model model [] crit metric s) = Inl ZeroDivisionError
   \<and> (data_loader \<noteq> [] \<longrightarrow>
        fst (train_epoch lib model data_loader crit scheduler s) =
          Inr (fst (train_loop lib model crit scheduler data_loader 0 (model_train s))
               / real (length data_loader)))
   \<and> (fst (train_epoch lib model data_loader crit scheduler s) = Inl ZeroDivisionError
        \<longleftrightarrow> data_loader = [])
   \<and> ((\<forall>y p. metric y p \<noteq> Inl ZeroDivisionError) \<longrightarrow>
        (fst (eval_model model data_loader crit metric s) = Inl ZeroDivisionError
          \<longleftrightarrow> data_loader = []))
   \<and> (\<forall>avg roc_auc. fst (eval_model model data_loader crit metric s) = Inr (avg, roc_auc) \<longrightarrow>
        data_loader \<noteq> []
        \<and> avg = fst (fst (eval_loop model crit data_loader 0 [] []
                     (emit NoGradEnter ((model_eval s)\<lparr>grad_enabled := False\<rparr>))))
                / real (length data_loader))"
proof (intro conjI allI impI)
  show "fst (train_epoch lib model [] crit scheduler s) = Inl ZeroDivisionError"
    by (simp add: train_epoch_def)
  show "fst (eval_model model [] crit metric s) = Inl ZeroDivisionError"
    by (simp add: eval_model_def Let_def)
  show "fst (train_epoch lib model data_loader crit scheduler s) = Inl ZeroDivisionError
        \<longleftrightarrow> data_loader = []"
    by (simp add: train_epoch_def case_prod_beta)
next
  assume "data_loader \<noteq> []"
  then show "fst (train_epoch lib model data_loader crit scheduler s) =
          Inr (fst (train_loop lib model crit scheduler data_loader 0 (model_train s))
               / real (length data_loader))"
    by (simp add: train_epoch_def case_prod_beta)
next
  assume m: "\<forall>y p. metric y p \<noteq> Inl ZeroDivisionError"
  show "fst (eval_model model data_loader crit metric s) = Inl ZeroDivisionError
          \<longleftrightarrow> data_loader = []"
    using roc_auc_loop_no_zero_division[OF m]
    by (auto simp: eval_model_def Let_def case_prod_beta np_concatenate_def split: sum.splits if_splits)
next
  fix avg roc_auc
  assume r: "fst (eval_model model data_loader crit metric s) = Inr (avg, roc_auc)"
  then show "data_loader \<noteq> []"
    by (auto simp: eval_model_def Let_def)
  from r show "avg = fst (fst (eval_loop model crit data_loader 0 [] []
                     (emit NoGradEnter ((model_eval s)\<lparr>grad_enabled := False\<rparr>))))
                / real (length data_loader)"
    by (auto simp: eval_model_def Let_def case_prod_beta split: sum.splits if_splits)
qed

subsection \<open>The loops on a small session\<close>

lemma toy_forward_train:
  "forward toy_bert toy_zero self True g ids attn type_ids =
     (Linear (out_weight self) (out_bias self) (map (\<lambda>v. [0]) ids), Suc g)"
  by (simp add: forward_def Dropout_def toy_bert_def toy_zero_def comp_def)

lemma toy_batch_losses:
  "batch_losses toy_torch (forward toy_bert toy_zero) toy_criterion (Some Suc) toy_loader
     (model_train toy_session) = [1, 2]"
  by (simp add: toy_loader_def toy_session_def model_train_def train_batch_def Let_def
      case_prod_beta model_call_def emit_def optimizer_zero_grad_def loss_backward_def
      clip_grad_norm_def optimizer_step_def scheduler_step_def toy_torch_def toy_criterion_def
      toy_forward_train Linear_def toy_self_def)

theorem train_epoch_steps_witness:
  "fst (train_epoch toy_torch (forward toy_bert toy_zero) toy_loader toy_criterion (Some Suc)
         toy_session) = Inr (3 / 2)
   \<and> trace (snd (train_epoch toy_torch (forward toy_bert toy_zero) toy_loader toy_criterion
         (Some Suc) toy_session))
       = [ModuleTrain,
          Forward True True, Criterion, ZeroGrad, Backward, ClipGradNorm 1, OptimizerStep,
          SchedulerStep,
          Forward True True, Criterion, ZeroGrad, Backward, ClipGradNorm 1, OptimizerStep,
          SchedulerStep]"
proof -
  note t = train_epoch_steps[of toy_torch "forward toy_bert toy_zero" toy_criterion "Some Suc"
      toy_loader toy_session]
  have ne: "toy_loader \<noteq> []" by (simp add: toy_loader_def)
  from t ne have "fst (train_epoch toy_torch (forward toy_bert toy_zero) toy_loader toy_criterion
      (Some Suc) toy_session) =
      Inr (sum_list (batch_losses toy_torch (forward toy_bert toy_zero) toy_criterion (Some Suc)
             toy_loader (model_train toy_session)) / real (length toy_loader))"
    by blast
  then have a: "fst (train_epoch toy_torch (forward toy_bert toy_zero) toy_loader toy_criterion
      (Some Suc) toy_session) = Inr (3 / 2)"
    by (simp add: toy_batch_losses) (simp add: toy_loader_def)
  from t have "trace (snd (train_epoch toy_torch (forward toy_bert toy_zero) toy_loader
      toy_criterion (Some Suc) toy_session)) =
       trace toy_session @ ModuleTrain #
         concat (map (\<lambda>b. [Forward True (grad_enabled toy_session), Criterion, ZeroGrad, Backward,
                            ClipGradNorm 1, OptimizerStep]
                         @ (case Some Suc of None \<Rightarrow> [] | Some sched \<Rightarrow> [SchedulerStep]))
                  toy_loader)"
    by blast
  then have b: "trace (snd (train_epoch toy_torch (forward toy_bert toy_zero) toy_loader
      toy_criterion (Some Suc) toy_session))
       = [ModuleTrain,
          Forward True True, Criterion, ZeroGrad, Backward, ClipGradNorm 1, OptimizerStep,
          SchedulerStep,
          Forward True True, Criterion, ZeroGrad, Backward, ClipGradNorm 1, OptimizerStep,
          SchedulerStep]"
    by (simp add: toy_session_def toy_loader_def)
  from a b show ?thesis by blast
qed

theorem average_loss_needs_a_batch_witness:
  "fst (train_epoch toy_torch (forward toy_bert toy_zero) [] toy_criterion (Some Suc) toy_session)
     = Inl ZeroDivisionError
   \<and> fst (eval_model (forward toy_bert toy_zero) [] toy_criterion roc_auc_score toy_session)
     = Inl ZeroDivisionError
   \<and> fst (train_epoch toy_torch (forward toy_bert toy_zero) toy_loader toy_criterion (Some Suc)
         toy_session)
     \<noteq> Inl ZeroDivisionError
   \<and> fst (eval_model (forward toy_bert toy_zero) toy_loader toy_criterion roc_auc_score
         toy_session)
     \<noteq> Inl ZeroDivisionError"
proof -
  have ne: "toy_loader \<noteq> []" by (simp add: toy_loader_def)
  have m: "\<forall>y p. roc_auc_score y p \<noteq> Inl ZeroDivisionError"
    by (simp add: roc_auc_score_errors)
  from average_loss_needs_a_batch[of toy_torch "forward toy_bert toy_zero" toy_criterion
      "Some Suc" toy_session roc_auc_score toy_loader] ne m
  show ?thesis by blast
qed

end
